theory Spec2Isabelle
  imports Complex_Main "HOL-Library.Sublist" "HOL-Library.List_Lexorder" "HOL-Library.Char_ord"
begin

section \<open>Values of the dynamically typed source\<close>

text \<open>
  The client is Python. What the feature service sends is decoded JSON, and the data
  classes of \<^verbatim>\<open>models.py\<close> store whatever value a feature carried: their type
  annotations are not enforced. A decoded JSON value is therefore a datatype of its own;
  \<open>JNull\<close> is Python's \<^verbatim>\<open>None\<close>, an object is a dictionary, kept as an association list
  in insertion order and read with \<open>map_of\<close>. A float is modelled by the real number it
  denotes (the client stores floats and never computes with them). A Python \<^verbatim>\<open>str\<close> is a
  \<open>string\<close>; the model covers the code points below 256.
\<close>

datatype json =
    JNull
  | JBool bool
  | JInt int
  | JFloat real
  | JStr string
  | JArr "json list"
  | JObj "(string \<times> json) list"

text \<open>The exceptions the modelled code can raise or pass on.\<close>

datatype error = ValueError | RequestException | AttributeError | TypeError

text \<open>\<^verbatim>\<open>d.get(key, default)\<close> on a dictionary.\<close>

definition dict_get :: "(string \<times> json) list \<Rightarrow> string \<Rightarrow> json \<Rightarrow> json" where
  "dict_get d k dflt = (case map_of d k of None \<Rightarrow> dflt | Some v \<Rightarrow> v)"

text \<open>
  \<^verbatim>\<open>x.get\<close> exists on dictionaries only; on every other JSON value the attribute
  lookup raises \<^verbatim>\<open>AttributeError\<close>.
\<close>

fun as_dict :: "json \<Rightarrow> error + (string \<times> json) list" where
  "as_dict (JObj d) = Inr d"
| "as_dict _ = Inl AttributeError"

text \<open>Python truthiness (\<^verbatim>\<open>if x\<close>, \<^verbatim>\<open>not x\<close>, \<^verbatim>\<open>x or y\<close>).\<close>

fun truthy :: "json \<Rightarrow> bool" where
  "truthy JNull = False"
| "truthy (JBool b) = b"
| "truthy (JInt i) = (i \<noteq> 0)"
| "truthy (JFloat r) = (r \<noteq> 0)"
| "truthy (JStr s) = (s \<noteq> [])"
| "truthy (JArr xs) = (xs \<noteq> [])"
| "truthy (JObj d) = (d \<noteq> [])"

section \<open>Strings: lower-casing and the substring test\<close>

text \<open>
  \<^verbatim>\<open>str.lower()\<close>, character by character: the capital letters A to Z and the capital
  letters of Latin-1 (192 to 222 without the multiplication sign 215) move up by 32.
\<close>

definition lower_char :: "char \<Rightarrow> char" where
  "lower_char c =
     (let n = (of_char c :: nat)
      in if (65 \<le> n \<and> n \<le> 90) \<or> (192 \<le> n \<and> n \<le> 222 \<and> n \<noteq> 215)
         then char_of (n + 32) else c)"

definition py_lower :: "string \<Rightarrow> string" where
  "py_lower s = map lower_char s"

text \<open>\<^verbatim>\<open>key in s\<close> on two strings: \<open>key\<close> occurs in \<open>s\<close> as a contiguous block.\<close>

fun py_startswith :: "string \<Rightarrow> string \<Rightarrow> bool" where
  "py_startswith [] s = True"
| "py_startswith (k # ks) [] = False"
| "py_startswith (k # ks) (c # cs) = (k = c \<and> py_startswith ks cs)"

fun py_in :: "string \<Rightarrow> string \<Rightarrow> bool" where
  "py_in key [] = (key = [])"
| "py_in key (c # cs) = (py_startswith key (c # cs) \<or> py_in key cs)"

section \<open>Energy types and the classification of a primary source\<close>

datatype EnergyType =
    COAL | NATURAL_GAS | NUCLEAR | HYDRO | HYDRO_PUMPED | SOLAR | WIND
  | GEOTHERMAL | BIOMASS | BATTERY | OTHER | CRUDE_OIL

text \<open>The enumeration's values: \<^verbatim>\<open>EnergyType.X.value\<close>.\<close>

fun EnergyType_value :: "EnergyType \<Rightarrow> string" where
  "EnergyType_value COAL = ''Coal''"
| "EnergyType_value NATURAL_GAS = ''Natural Gas''"
| "EnergyType_value NUCLEAR = ''Nuclear''"
| "EnergyType_value HYDRO = ''Hydroelectric''"
| "EnergyType_value HYDRO_PUMPED = ''Hydro Pumped Storage''"
| "EnergyType_value SOLAR = ''Solar''"
| "EnergyType_value WIND = ''Wind''"
| "EnergyType_value GEOTHERMAL = ''Geothermal''"
| "EnergyType_value BIOMASS = ''Biomass''"
| "EnergyType_value BATTERY = ''Battery Storage''"
| "EnergyType_value OTHER = ''Other''"
| "EnergyType_value CRUDE_OIL = ''Crude Oil''"

text \<open>
  The dictionary \<^verbatim>\<open>source_mapping\<close> of \<^verbatim>\<open>PowerPlant.primary_energy_type\<close>, in
  insertion order, which is the order in which the \<^verbatim>\<open>for\<close> loop visits it.
\<close>

definition source_mapping :: "(string \<times> EnergyType) list" where
  "source_mapping =
     [(''coal'', COAL),
      (''natural gas'', NATURAL_GAS),
      (''nuclear'', NUCLEAR),
      (''hydro'', HYDRO),
      (''hydroelectric'', HYDRO),
      (''solar'', SOLAR),
      (''wind'', WIND),
      (''geothermal'', GEOTHERMAL),
      (''biomass'', BIOMASS),
      (''batteries'', BATTERY),
      (''battery'', BATTERY),
      (''crude oil'', CRUDE_OIL),
      (''petroleum'', CRUDE_OIL)]"

text \<open>
  The loop \<^verbatim>\<open>for key, energy_type in source_mapping.items(): if key in source_lower:
  return energy_type\<close>, followed by \<^verbatim>\<open>return EnergyType.OTHER\<close>.
\<close>

fun classify_loop :: "(string \<times> EnergyType) list \<Rightarrow> string \<Rightarrow> EnergyType" where
  "classify_loop [] source_lower = OTHER"
| "classify_loop ((key, energy_type) # rest) source_lower =
     (if py_in key source_lower then energy_type else classify_loop rest source_lower)"

text \<open>The body of the property \<^verbatim>\<open>primary_energy_type\<close>, on the string it reads.\<close>

definition classify :: "string \<Rightarrow> EnergyType" where
  "classify primary_source_str = classify_loop source_mapping (py_lower primary_source_str)"

text \<open>
  The classifier as the specification words it: the first pair of an ordered keyword
  table whose keyword is a substring of the lower-cased input decides; no match is
  \<open>OTHER\<close>. The table is the one the specification lists.
\<close>

definition spec_keyword_table :: "(string \<times> EnergyType) list" where
  "spec_keyword_table =
     [(''coal'', COAL), (''natural gas'', NATURAL_GAS), (''nuclear'', NUCLEAR),
      (''hydro'', HYDRO), (''hydroelectric'', HYDRO), (''solar'', SOLAR), (''wind'', WIND),
      (''geothermal'', GEOTHERMAL), (''biomass'', BIOMASS), (''batteries'', BATTERY),
      (''battery'', BATTERY), (''crude oil'', CRUDE_OIL), (''petroleum'', CRUDE_OIL)]"

definition classify_spec :: "string \<Rightarrow> EnergyType" where
  "classify_spec s =
     (case find (\<lambda>(keyword, t). sublist keyword (py_lower s)) spec_keyword_table of
        None \<Rightarrow> OTHER
      | Some (keyword, t) \<Rightarrow> t)"

section \<open>The record model\<close>

text \<open>
  The data classes of \<^verbatim>\<open>models.py\<close>. A field holds the JSON value the parser put
  there; an optional field that is absent holds \<open>JNull\<close>.
\<close>

record PowerPlantLocation =
  latitude :: json
  longitude :: json
  city :: json
  county :: json
  state :: json
  zip_code :: json
  street_address :: json

record PowerPlantCapacity =
  total_mw :: json
  install_mw :: json
  coal_mw :: json
  natural_gas_mw :: json
  nuclear_mw :: json
  hydro_mw :: json
  hydro_pumped_mw :: json
  solar_mw :: json
  wind_mw :: json
  geothermal_mw :: json
  biomass_mw :: json
  battery_mw :: json
  crude_oil_mw :: json
  other_mw :: json

record PowerPlant =
  object_id :: json
  plant_code :: json
  plant_name :: json
  utility_name :: json
  utility_id :: json
  sector_name :: json
  primary_source :: json
  location :: PowerPlantLocation
  capacity :: PowerPlantCapacity
  tech_desc :: json
  source_desc :: json
  data_period :: json
  source :: json

text \<open>
  The property \<^verbatim>\<open>primary_energy_type\<close> calls \<^verbatim>\<open>self.primary_source.lower()\<close>:
  on a primary source that is not a string (a JSON null, a number) the attribute lookup
  raises.
\<close>

definition primary_energy_type :: "PowerPlant \<Rightarrow> error + EnergyType" where
  "primary_energy_type plant =
     (case primary_source plant of
        JStr s \<Rightarrow> Inr (classify s)
      | _ \<Rightarrow> Inl AttributeError)"

section \<open>The response parser\<close>

text \<open>
  \<^verbatim>\<open>EIAAtlasClient._parse_feature_to_power_plant\<close>. The three \<^verbatim>\<open>.get\<close> receivers
  (the feature, its attributes, its geometry) must be dictionaries; every raise of the
  function is an \<^verbatim>\<open>AttributeError\<close>, so the order of the three checks does not show.
\<close>

definition parse_feature_to_power_plant :: "json \<Rightarrow> error + PowerPlant" where
  "parse_feature_to_power_plant feature =
     (case as_dict feature of
        Inl e \<Rightarrow> Inl e
      | Inr fd \<Rightarrow>
          (case as_dict (dict_get fd ''geometry'' (JObj [])) of
             Inl e \<Rightarrow> Inl e
           | Inr geom \<Rightarrow>
               (case as_dict (dict_get fd ''attributes'' (JObj [])) of
                  Inl e \<Rightarrow> Inl e
                | Inr attrs \<Rightarrow>
                    Inr \<lparr>object_id = dict_get attrs ''OBJECTID'' (JInt 0),
                         plant_code = dict_get attrs ''Plant_Code'' (JInt 0),
                         plant_name = dict_get attrs ''Plant_Name'' (JStr ''''),
                         utility_name = dict_get attrs ''Utility_Name'' (JStr ''''),
                         utility_id = dict_get attrs ''Utility_ID'' (JInt 0),
                         sector_name = dict_get attrs ''Sector_Name'' (JStr ''''),
                         primary_source = dict_get attrs ''PrimSource'' (JStr ''''),
                         location =
                           \<lparr>latitude = dict_get geom ''y'' (dict_get attrs ''Latitude'' (JFloat 0)),
                            longitude = dict_get geom ''x'' (dict_get attrs ''Longitude'' (JFloat 0)),
                            city = dict_get attrs ''City'' (JStr ''''),
                            county = dict_get attrs ''County'' (JStr ''''),
                            state = dict_get attrs ''StateName'' (JStr ''''),
                            zip_code = dict_get attrs ''Zip'' JNull,
                            street_address = dict_get attrs ''Street_Address'' JNull\<rparr>,
                         capacity =
                           \<lparr>total_mw = dict_get attrs ''Total_MW'' JNull,
                            install_mw = dict_get attrs ''Install_MW'' JNull,
                            coal_mw = dict_get attrs ''Coal_MW'' JNull,
                            natural_gas_mw = dict_get attrs ''NG_MW'' JNull,
                            nuclear_mw = dict_get attrs ''Nuclear_MW'' JNull,
                            hydro_mw = dict_get attrs ''Hydro_MW'' JNull,
                            hydro_pumped_mw = dict_get attrs ''HydroPS_MW'' JNull,
                            solar_mw = dict_get attrs ''Solar_MW'' JNull,
                            wind_mw = dict_get attrs ''Wind_MW'' JNull,
                            geothermal_mw = dict_get attrs ''Geo_MW'' JNull,
                            biomass_mw = dict_get attrs ''Bio_MW'' JNull,
                            battery_mw = dict_get attrs ''Bat_MW'' JNull,
                            crude_oil_mw = dict_get attrs ''Crude_MW'' JNull,
                            other_mw = dict_get attrs ''Other_MW'' JNull\<rparr>,
                         tech_desc = dict_get attrs ''tech_desc'' JNull,
                         source_desc = dict_get attrs ''Source_Desc'' JNull,
                         data_period = dict_get attrs ''Period'' JNull,
                         source = dict_get attrs ''Source'' JNull\<rparr>)))"

text \<open>
  The list comprehension over the features of a page: the first feature that fails to
  parse raises, and nothing of the page is kept.
\<close>

fun parse_features :: "json list \<Rightarrow> error + PowerPlant list" where
  "parse_features [] = Inr []"
| "parse_features (feature # rest) =
     (case parse_feature_to_power_plant feature of
        Inl e \<Rightarrow> Inl e
      | Inr plant \<Rightarrow>
          (case parse_features rest of
             Inl e \<Rightarrow> Inl e
           | Inr plants \<Rightarrow> Inr (plant # plants)))"

section \<open>Query parameters\<close>

text \<open>
  \<^verbatim>\<open>PowerPlantQueryParams\<close>: an object the caller builds, with the types the data
  class declares. The field \<^verbatim>\<open>f\<close> of the source is \<open>f_param\<close> here.
\<close>

record PowerPlantQueryParams =
  where_clause :: string
  out_fields :: string
  out_sr :: int
  result_record_count :: "int option"
  result_offset :: "int option"
  order_by_fields :: "string option"
  return_geometry :: bool
  f_param :: string

text \<open>\<^verbatim>\<open>PowerPlantQueryParams()\<close>: every field at its default.\<close>

definition default_query_params :: PowerPlantQueryParams where
  "default_query_params =
     \<lparr>where_clause = ''1=1'', out_fields = ''*'', out_sr = 4326,
      result_record_count = None, result_offset = None, order_by_fields = None,
      return_geometry = True, f_param = ''json''\<rparr>"

text \<open>A value of the transport-layer parameter dictionary.\<close>

datatype param = PStr string | PInt int

text \<open>
  \<^verbatim>\<open>d[k] = v\<close>: an existing key keeps its place and takes the new value, a new key goes
  to the end.
\<close>

fun dict_set :: "('k \<times> 'v) list \<Rightarrow> 'k \<Rightarrow> 'v \<Rightarrow> ('k \<times> 'v) list" where
  "dict_set [] k v = [(k, v)]"
| "dict_set ((k', v') # d) k v =
     (if k' = k then (k, v) # d else (k', v') # dict_set d k v)"

text \<open>\<^verbatim>\<open>PowerPlantQueryParams.to_dict\<close>.\<close>

definition to_dict :: "PowerPlantQueryParams \<Rightarrow> (string \<times> param) list" where
  "to_dict qp =
     (let params =
            [(''where'', PStr (where_clause qp)),
             (''outFields'', PStr (out_fields qp)),
             (''outSR'', PInt (out_sr qp)),
             (''returnGeometry'', PStr (if return_geometry qp then ''true'' else ''false'')),
             (''f'', PStr (f_param qp))];
          params = (case result_record_count qp of
                      None \<Rightarrow> params
                    | Some n \<Rightarrow> dict_set params ''resultRecordCount'' (PInt n));
          params = (case result_offset qp of
                      None \<Rightarrow> params
                    | Some n \<Rightarrow> dict_set params ''resultOffset'' (PInt n));
          params = (case order_by_fields qp of
                      None \<Rightarrow> params
                    | Some s \<Rightarrow> dict_set params ''orderByFields'' (PStr s))
      in params)"

section \<open>Services and the transport\<close>

definition BASE_URL :: string where
  "BASE_URL = ''https://services7.arcgis.com/FGr1D95XCGALKXqM/ArcGIS/rest/services''"

definition SERVICES :: "(string \<times> string) list" where
  "SERVICES =
     [(''all_plants'', ''ElectricPowerPlants/FeatureServer/0''),
      (''coal_plants'', ''Coal_Power_Plants/FeatureServer/0''),
      (''natural_gas_plants'', ''Natural_Gas_Power_Plants/FeatureServer/0''),
      (''nuclear_plants'', ''Nuclear_Power_Plants/FeatureServer/0''),
      (''hydro_plants'', ''Hydroelectric_Power_Plants/FeatureServer/0''),
      (''hydro_pumped_plants'', ''Hydro_Pumped_Storage_Power_Plants/FeatureServer/0''),
      (''solar_plants'', ''Solar_Power_Plants/FeatureServer/0''),
      (''wind_plants'', ''Wind_Power_Plants/FeatureServer/0''),
      (''geothermal_plants'', ''Geothermal_Power_Plants/FeatureServer/0''),
      (''battery_plants'', ''Battery_Storage_Plants/FeatureServer/0''),
      (''petroleum_plants'', ''Petroleum_Power_Plants/FeatureServer/0''),
      (''other_plants'', ''Other_Power_Plants/FeatureServer/0'')]"

definition build_url :: "string \<Rightarrow> string" where
  "build_url service_path = BASE_URL @ ''/'' @ service_path @ ''/query''"

text \<open>
  The HTTP session is outside the repository. It is a parameter: from its own state
  \<open>'s\<close> (the server, the network), a URL and a parameter dictionary it either raises
  or yields the decoded JSON body, and moves to a new state. This stands for
  \<^verbatim>\<open>session.get\<close>, \<^verbatim>\<open>raise_for_status\<close> and \<^verbatim>\<open>response.json()\<close> together.
\<close>

type_synonym 's transport =
  "'s \<Rightarrow> string \<Rightarrow> (string \<times> param) list \<Rightarrow> (error + json) \<times> 's"

text \<open>
  The test \<^verbatim>\<open>if 'error' in data\<close> of \<^verbatim>\<open>_make_request\<close> and what follows it. On a
  dictionary it looks the key up; \<^verbatim>\<open>data['error'].get\<close> then needs a dictionary, and
  the \<^verbatim>\<open>RequestException\<close> raised is re-raised by the handler. On a list or a string
  \<^verbatim>\<open>in\<close> is membership, and \<^verbatim>\<open>data['error']\<close> raises \<^verbatim>\<open>TypeError\<close>; on the other
  values \<^verbatim>\<open>in\<close> itself raises it. Neither handler catches \<^verbatim>\<open>AttributeError\<close> or
  \<^verbatim>\<open>TypeError\<close>.
\<close>

fun check_api_error :: "json \<Rightarrow> error + json" where
  "check_api_error (JObj d) =
     (case map_of d ''error'' of
        None \<Rightarrow> Inr (JObj d)
      | Some err \<Rightarrow>
          (case as_dict err of
             Inl e \<Rightarrow> Inl e
           | Inr _ \<Rightarrow> Inl RequestException))"
| "check_api_error (JArr xs) =
     (if JStr ''error'' \<in> set xs then Inl TypeError else Inr (JArr xs))"
| "check_api_error (JStr s) =
     (if py_in ''error'' s then Inl TypeError else Inr (JStr s))"
| "check_api_error _ = Inl TypeError"

text \<open>
  \<^verbatim>\<open>EIAAtlasClient._make_request\<close>: a \<^verbatim>\<open>ValueError\<close> of the transport becomes a
  \<^verbatim>\<open>RequestException\<close>, every other exception passes through.
\<close>

definition make_request ::
  "'s transport \<Rightarrow> 's \<Rightarrow> string \<Rightarrow> (string \<times> param) list \<Rightarrow> (error + json) \<times> 's" where
  "make_request http s url params =
     (case http s url params of
        (Inl e, s') \<Rightarrow> (Inl (if e = ValueError then RequestException else e), s')
      | (Inr data, s') \<Rightarrow> (check_api_error data, s'))"

text \<open>
  \<^verbatim>\<open>EIAAtlasResponse\<close> and \<^verbatim>\<open>EIAAtlasResponse.from_dict\<close>. The field \<^verbatim>\<open>fields\<close> of
  the source is \<open>fields_list\<close> here.
\<close>

record EIAAtlasResponse =
  object_id_field_name :: json
  geometry_type :: json
  spatial_reference :: json
  fields_list :: json
  features :: json
  exceeded_transfer_limit :: json

definition from_dict :: "json \<Rightarrow> error + EIAAtlasResponse" where
  "from_dict data =
     (case as_dict data of
        Inl e \<Rightarrow> Inl e
      | Inr d \<Rightarrow>
          Inr \<lparr>object_id_field_name = dict_get d ''objectIdFieldName'' (JStr ''''),
               geometry_type = dict_get d ''geometryType'' (JStr ''''),
               spatial_reference = dict_get d ''spatialReference'' (JObj []),
               fields_list = dict_get d ''fields'' (JArr []),
               features = dict_get d ''features'' (JArr []),
               exceeded_transfer_limit = dict_get d ''exceededTransferLimit'' (JBool False)\<rparr>)"

section \<open>The pagination loop\<close>

text \<open>
  \<^verbatim>\<open>for feature in response.features\<close>: a list yields its elements, a string its
  characters, a dictionary its keys; nothing else is iterable. \<^verbatim>\<open>len\<close> of a list, a
  string or a dictionary is the number of elements the iteration yields, so the model
  takes \<^verbatim>\<open>len(response.features)\<close> from the iterated list.
\<close>

fun py_iter :: "json \<Rightarrow> error + json list" where
  "py_iter (JArr xs) = Inr xs"
| "py_iter (JStr s) = Inr (map (\<lambda>c. JStr [c]) s)"
| "py_iter (JObj d) = Inr (map (\<lambda>(k, v). JStr k) d)"
| "py_iter _ = Inl TypeError"

text \<open>\<^verbatim>\<open>if limit\<close> on an optional integer: \<^verbatim>\<open>None\<close> and 0 are false.\<close>

definition limit_set :: "int option \<Rightarrow> bool" where
  "limit_set limit = (case limit of None \<Rightarrow> False | Some l \<Rightarrow> l \<noteq> 0)"

text \<open>
  \<^verbatim>\<open>xs[:n]\<close>: the first \<open>n\<close> elements, and for a negative \<open>n\<close> all but the last
  \<open>-n\<close>.
\<close>

definition py_slice_to :: "'a list \<Rightarrow> int \<Rightarrow> 'a list" where
  "py_slice_to xs n =
     (if 0 \<le> n then take (nat n) xs else take (length xs - nat (- n)) xs)"

text \<open>
  The parameter dictionary of one page request: \<^verbatim>\<open>params.copy()\<close>, then the offset,
  then the page size unless the dictionary has one.
\<close>

definition current_params ::
  "(string \<times> param) list \<Rightarrow> int \<Rightarrow> int \<Rightarrow> (string \<times> param) list" where
  "current_params params batch_size offset =
     (let cp = dict_set params ''resultOffset'' (PInt offset)
      in if map_of cp ''resultRecordCount'' = None
         then dict_set cp ''resultRecordCount'' (PInt batch_size)
         else cp)"

text \<open>
  How one pass through the body of \<^verbatim>\<open>while True\<close> ends: an exception leaves the
  function, \<^verbatim>\<open>break\<close> leaves the loop with the accumulated plants, and otherwise the
  loop goes round again with the new accumulator and the new offset. In the body,
  \<open>more\<close> is the part after the limit test: the second \<^verbatim>\<open>if\<close> and the advance of
  the offset.
\<close>

datatype outcome =
    Raise error
  | Break "PowerPlant list"
  | Continue "PowerPlant list" int

definition loop_body ::
  "'s transport \<Rightarrow> string \<Rightarrow> (string \<times> param) list \<Rightarrow> int \<Rightarrow> int option \<Rightarrow>
   PowerPlant list \<Rightarrow> int \<Rightarrow> 's \<Rightarrow> outcome \<times> 's" where
  "loop_body http url params batch_size limit all_plants offset s =
     (case make_request http s url (current_params params batch_size offset) of
        (Inl e, s') \<Rightarrow> (Raise e, s')
      | (Inr data, s') \<Rightarrow>
          (case from_dict data of
             Inl e \<Rightarrow> (Raise e, s')
           | Inr response \<Rightarrow>
               if \<not> truthy (features response) then (Break all_plants, s')
               else
                 (case py_iter (features response) of
                    Inl e \<Rightarrow> (Raise e, s')
                  | Inr feats \<Rightarrow>
                      (case parse_features feats of
                         Inl e \<Rightarrow> (Raise e, s')
                       | Inr batch_plants \<Rightarrow>
                           (let all_plants' = all_plants @ batch_plants;
                                more =
                                  (if int (length feats) < batch_size
                                      \<or> truthy (exceeded_transfer_limit response)
                                   then (Break all_plants', s')
                                   else (Continue all_plants' (offset + int (length feats)), s'))
                            in case limit of
                                 None \<Rightarrow> more
                               | Some l \<Rightarrow>
                                   if l \<noteq> 0 \<and> l \<le> int (length all_plants')
                                   then (Break (py_slice_to all_plants' l), s')
                                   else more)))))"

text \<open>
  The loop itself. Nothing in the source bounds the number of passes, so the loop is a
  partial function: \<open>None\<close> is a run that never returns.
\<close>

partial_function (option) pagination_loop ::
  "'s transport \<Rightarrow> string \<Rightarrow> (string \<times> param) list \<Rightarrow> int \<Rightarrow> int option \<Rightarrow>
   PowerPlant list \<Rightarrow> int \<Rightarrow> 's \<Rightarrow> ((error + PowerPlant list) \<times> 's) option" where
  "pagination_loop http url params batch_size limit all_plants offset s =
     (case loop_body http url params batch_size limit all_plants offset s of
        (Raise e, s') \<Rightarrow> Some (Inl e, s')
      | (Break plants, s') \<Rightarrow> Some (Inr plants, s')
      | (Continue plants offset', s') \<Rightarrow>
          pagination_loop http url params batch_size limit plants offset' s')"

text \<open>
  \<^verbatim>\<open>EIAAtlasClient.get_power_plants\<close>. The assignment
  \<^verbatim>\<open>query_params.result_record_count = limit\<close> writes into the object the caller
  passed, so the result carries, beside the plants or the exception and the transport's
  state, that object as the call leaves it (\<open>None\<close> when the caller passed none).
\<close>

definition get_power_plants ::
  "'s transport \<Rightarrow> string \<Rightarrow> PowerPlantQueryParams option \<Rightarrow> int option \<Rightarrow> 's \<Rightarrow>
   ((error + PowerPlant list) \<times> PowerPlantQueryParams option \<times> 's) option" where
  "get_power_plants http service query_params limit s =
     (case map_of SERVICES service of
        None \<Rightarrow> Some (Inl ValueError, query_params, s)
      | Some service_path \<Rightarrow>
          (let qp = (case query_params of None \<Rightarrow> default_query_params | Some q \<Rightarrow> q);
               qp = (if limit_set limit then qp\<lparr>result_record_count := limit\<rparr> else qp);
               url = build_url service_path;
               params = to_dict qp;
               batch_size = (case result_record_count qp of
                               None \<Rightarrow> 1000
                             | Some n \<Rightarrow> if n = 0 then 1000 else n)
           in map_option (\<lambda>(r, s'). (r, map_option (\<lambda>q. qp) query_params, s'))
                (pagination_loop http url params batch_size limit [] 0 s)))"

section \<open>Routing an energy type to a service\<close>

text \<open>The dictionary \<^verbatim>\<open>service_mapping\<close> of \<^verbatim>\<open>get_plants_by_energy_type\<close>.\<close>

definition service_mapping :: "(EnergyType \<times> string) list" where
  "service_mapping =
     [(COAL, ''coal_plants''),
      (NATURAL_GAS, ''natural_gas_plants''),
      (NUCLEAR, ''nuclear_plants''),
      (HYDRO, ''hydro_plants''),
      (SOLAR, ''solar_plants''),
      (WIND, ''wind_plants''),
      (GEOTHERMAL, ''geothermal_plants''),
      (BATTERY, ''battery_plants''),
      (CRUDE_OIL, ''petroleum_plants''),
      (OTHER, ''other_plants'')]"

text \<open>
  \<^verbatim>\<open>[plant for plant in all_plants if plant.primary_energy_type == energy_type]\<close>:
  the property is evaluated on every plant in turn and may raise.
\<close>

fun filter_by_energy_type :: "EnergyType \<Rightarrow> PowerPlant list \<Rightarrow> error + PowerPlant list" where
  "filter_by_energy_type energy_type [] = Inr []"
| "filter_by_energy_type energy_type (plant # rest) =
     (case primary_energy_type plant of
        Inl e \<Rightarrow> Inl e
      | Inr t \<Rightarrow>
          (case filter_by_energy_type energy_type rest of
             Inl e \<Rightarrow> Inl e
           | Inr plants \<Rightarrow> Inr (if t = energy_type then plant # plants else plants)))"

text \<open>
  \<^verbatim>\<open>EIAAtlasClient.get_plants_by_energy_type\<close>. Both branches call
  \<^verbatim>\<open>get_power_plants\<close> without a query-parameter object.
\<close>

definition get_plants_by_energy_type ::
  "'s transport \<Rightarrow> EnergyType \<Rightarrow> int option \<Rightarrow> 's \<Rightarrow>
   ((error + PowerPlant list) \<times> 's) option" where
  "get_plants_by_energy_type http energy_type limit s =
     (case map_of service_mapping energy_type of
        Some service \<Rightarrow>
          map_option (\<lambda>(r, qp, s'). (r, s')) (get_power_plants http service None limit s)
      | None \<Rightarrow>
          map_option
            (\<lambda>(r, qp, s').
               (case r of
                  Inl e \<Rightarrow> (Inl e, s')
                | Inr all_plants \<Rightarrow> (filter_by_energy_type energy_type all_plants, s')))
            (get_power_plants http ''all_plants'' None limit s))"

section \<open>Removing duplicates\<close>

text \<open>
  The dictionary \<^verbatim>\<open>unique_plants\<close> of \<^verbatim>\<open>export_comprehensive_data\<close> is keyed by
  plant codes. A Python dictionary needs a hashable key (a list or a dictionary raises
  \<^verbatim>\<open>TypeError\<close>) and identifies keys that compare equal: numbers and booleans by
  their numeric value, everything else by its own value.
\<close>

fun py_hashable :: "json \<Rightarrow> bool" where
  "py_hashable (JArr xs) = False"
| "py_hashable (JObj d) = False"
| "py_hashable _ = True"

fun py_num :: "json \<Rightarrow> real option" where
  "py_num (JBool b) = Some (if b then 1 else 0)"
| "py_num (JInt i) = Some (of_int i)"
| "py_num (JFloat r) = Some r"
| "py_num _ = None"

definition py_eq :: "json \<Rightarrow> json \<Rightarrow> bool" where
  "py_eq a b =
     (case (py_num a, py_num b) of
        (Some x, Some y) \<Rightarrow> x = y
      | (None, None) \<Rightarrow> a = b
      | _ \<Rightarrow> False)"

text \<open>\<^verbatim>\<open>key in d\<close> on a dictionary with hashable keys.\<close>

definition key_in :: "json \<Rightarrow> (json \<times> 'v) list \<Rightarrow> bool" where
  "key_in k d = list_ex (\<lambda>(k', v). py_eq k' k) d"

text \<open>
  The loop \<^verbatim>\<open>for plant in all_plants: if plant_code not in unique_plants:
  unique_plants[plant_code] = plant\<close>. The assignment is reached for a new key only, so it
  appends.
\<close>

fun unique_plants_loop ::
  "PowerPlant list \<Rightarrow> (json \<times> PowerPlant) list \<Rightarrow> error + (json \<times> PowerPlant) list" where
  "unique_plants_loop [] unique_plants = Inr unique_plants"
| "unique_plants_loop (plant # rest) unique_plants =
     (if \<not> py_hashable (plant_code plant) then Inl TypeError
      else if \<not> key_in (plant_code plant) unique_plants
      then unique_plants_loop rest (unique_plants @ [(plant_code plant, plant)])
      else unique_plants_loop rest unique_plants)"

text \<open>\<^verbatim>\<open>final_plants = list(unique_plants.values())\<close>, from an empty dictionary.\<close>

definition final_plants :: "PowerPlant list \<Rightarrow> error + PowerPlant list" where
  "final_plants all_plants =
     (case unique_plants_loop all_plants [] of
        Inl e \<Rightarrow> Inl e
      | Inr unique_plants \<Rightarrow> Inr (map snd unique_plants))"

text \<open>
  Deduplication as the specification words it: keyed by the plant code, the first
  occurrence wins and later duplicates are dropped.
\<close>

fun deduplicate_spec :: "PowerPlant list \<Rightarrow> PowerPlant list" where
  "deduplicate_spec [] = []"
| "deduplicate_spec (p # ps) =
     p # deduplicate_spec (filter (\<lambda>q. plant_code q \<noteq> plant_code p) ps)"

section \<open>Recording the requests of a run\<close>

text \<open>
  To speak about the requests a call sends, a transport is wrapped in a recorder: the
  wrapped transport answers as the transport does and keeps, beside the transport's
  state, the list of the exchanges so far, each the parameter dictionary sent and the
  answer received. The recorder is an instrument of the statements and not part of
  the client.
\<close>

type_synonym exchange = "(string \<times> param) list \<times> (error + json)"

definition recorded :: "'s transport \<Rightarrow> ('s \<times> exchange list) transport" where
  "recorded http st url params =
     (case st of
        (s, tr) \<Rightarrow>
          (case http s url params of
             (r, s') \<Rightarrow> (r, (s', tr @ [(params, r)]))))"

text \<open>
  The number of features a response holds, as the client counts them:
  \<^verbatim>\<open>len(response.features)\<close> of the response built by \<^verbatim>\<open>from_dict\<close>. An exception
  and a body without countable features have none.
\<close>

fun received_count :: "error + json \<Rightarrow> nat option" where
  "received_count (Inl e) = None"
| "received_count (Inr data) =
     (case from_dict data of
        Inl e \<Rightarrow> None
      | Inr response \<Rightarrow>
          (case py_iter (features response) of
             Inl e \<Rightarrow> None
           | Inr feats \<Rightarrow> Some (length feats)))"

text \<open>
  A list of exchanges is an offset chain from \<open>offset\<close> when its first request
  carries \<open>offset\<close> as \<^verbatim>\<open>resultOffset\<close> and every further request carries the offset
  of the request before it plus the number of features received in answer to that
  request.
\<close>

fun offsets_chain :: "int \<Rightarrow> exchange list \<Rightarrow> bool" where
  "offsets_chain offset [] = True"
| "offsets_chain offset ((params, r) # rest) =
     (map_of params ''resultOffset'' = Some (PInt offset)
      \<and> (case rest of
            [] \<Rightarrow> True
          | _ # _ \<Rightarrow>
              (case received_count r of
                 None \<Rightarrow> False
               | Some n \<Rightarrow> offsets_chain (offset + int n) rest)))"

section \<open>The renewable percentage by state\<close>

text \<open>
  \<^verbatim>\<open>DataAggregator.calculate_renewable_percentage\<close> is written with the data-frame
  library, which is outside the repository; the operations it calls are modelled from
  the library's documented behaviour. A data frame is the list of its rows, of which
  the function reads three columns. A missing value (\<^verbatim>\<open>None\<close>, \<^verbatim>\<open>NaN\<close>) of a column
  is \<open>None\<close>; a number is modelled by the real number it denotes.
\<close>

record df_row =
  row_state :: "string option"
  row_total_mw :: "real option"
  row_renewable_capacity_mw :: "real option"

text \<open>
  The result of a floating-point operation that can leave the finite numbers: a finite
  number, one of the two infinities, or not-a-number.
\<close>

datatype float_result = Finite real | PosInf | NegInf | NaN

text \<open>
  \<^verbatim>\<open>agg('sum')\<close> on a group: missing values are skipped, and the sum of no value is
  zero.
\<close>

definition group_sum :: "real option list \<Rightarrow> real" where
  "group_sum vs = sum_list (map (\<lambda>v. case v of None \<Rightarrow> 0 | Some x \<Rightarrow> x) vs)"

text \<open>
  The division of two finite floating-point numbers: no exception is raised on a zero
  divisor; zero by zero is not-a-number, and any other number by zero is the infinity
  of its sign.
\<close>

definition float_div :: "real \<Rightarrow> real \<Rightarrow> float_result" where
  "float_div a b =
     (if b \<noteq> 0 then Finite (a / b)
      else if a = 0 then NaN
      else if 0 < a then PosInf
      else NegInf)"

text \<open>\<^verbatim>\<open>* 100\<close>: the infinities and not-a-number stay what they are.\<close>

fun times_100 :: "float_result \<Rightarrow> float_result" where
  "times_100 (Finite x) = Finite (x * 100)"
| "times_100 PosInf = PosInf"
| "times_100 NegInf = NegInf"
| "times_100 NaN = NaN"

text \<open>
  \<^verbatim>\<open>.round(2)\<close>: a finite number goes to the nearest multiple of one hundredth, a tie
  to the even one; the infinities and not-a-number stay what they are.
\<close>

definition round_half_even :: "real \<Rightarrow> int" where
  "round_half_even x =
     (let f = \<lfloor>x\<rfloor>; d = x - of_int f
      in if d < 1 / 2 then f
         else if 1 / 2 < d then f + 1
         else if even f then f else f + 1)"

fun round_2 :: "float_result \<Rightarrow> float_result" where
  "round_2 (Finite x) = Finite (of_int (round_half_even (x * 100)) / 100)"
| "round_2 PosInf = PosInf"
| "round_2 NegInf = NegInf"
| "round_2 NaN = NaN"

text \<open>A row of \<^verbatim>\<open>state_summary\<close>: the group key, the two sums and the percentage.\<close>

record summary_row =
  summary_state :: string
  summary_total_mw :: real
  summary_renewable_capacity_mw :: real
  renewable_percentage :: float_result

text \<open>
  \<^verbatim>\<open>state_summary\<close> after the assignment of \<^verbatim>\<open>renewable_percentage\<close>:
  \<^verbatim>\<open>groupby('state')\<close> drops the rows without a state and makes one group for each
  state, in the order of the keys; each group gives one row.
\<close>

definition state_summary :: "df_row list \<Rightarrow> summary_row list" where
  "state_summary df =
     map (\<lambda>st.
            (let group = filter (\<lambda>r. row_state r = Some st) df;
                 total = group_sum (map row_total_mw group);
                 renewable = group_sum (map row_renewable_capacity_mw group)
             in \<lparr>summary_state = st,
                 summary_total_mw = total,
                 summary_renewable_capacity_mw = renewable,
                 renewable_percentage = round_2 (times_100 (float_div renewable total))\<rparr>))
         (sort (remdups (List.map_filter row_state df)))"

text \<open>
  The function returns the rows of \<^verbatim>\<open>state_summary\<close> reordered by
  \<^verbatim>\<open>sort_values\<close>. The order among equal percentages is up to the library's sorting
  algorithm, and the model keeps the rows and not their order.
\<close>

definition calculate_renewable_percentage :: "df_row list \<Rightarrow> summary_row set" where
  "calculate_renewable_percentage df = set (state_summary df)"

section \<open>Example data\<close>

text \<open>A plant with the given plant code and primary source, for concrete runs.\<close>

definition example_plant :: "int \<Rightarrow> string \<Rightarrow> PowerPlant" where
  "example_plant code src =
     \<lparr>object_id = JInt 0, plant_code = JInt code, plant_name = JStr '''',
      utility_name = JStr '''', utility_id = JInt 0, sector_name = JStr '''',
      primary_source = JStr src,
      location =
        \<lparr>latitude = JFloat 0, longitude = JFloat 0, city = JStr '''', county = JStr '''',
         state = JStr '''', zip_code = JNull, street_address = JNull\<rparr>,
      capacity =
        \<lparr>total_mw = JNull, install_mw = JNull, coal_mw = JNull, natural_gas_mw = JNull,
         nuclear_mw = JNull, hydro_mw = JNull, hydro_pumped_mw = JNull, solar_mw = JNull,
         wind_mw = JNull, geothermal_mw = JNull, biomass_mw = JNull, battery_mw = JNull,
         crude_oil_mw = JNull, other_mw = JNull\<rparr>,
      tech_desc = JNull, source_desc = JNull, data_period = JNull, source = JNull\<rparr>"

text \<open>A feature that parses to \<open>example_plant\<close>: it has no geometry.\<close>

definition example_feature :: "int \<Rightarrow> string \<Rightarrow> json" where
  "example_feature code src =
     JObj [(''attributes'', JObj [(''Plant_Code'', JInt code), (''PrimSource'', JStr src)])]"

text \<open>A response body with the given features and exceeded-transfer-limit flag.\<close>

definition page :: "json list \<Rightarrow> bool \<Rightarrow> json" where
  "page fs flag = JObj [(''features'', JArr fs), (''exceededTransferLimit'', JBool flag)]"

text \<open>
  A transport for concrete runs: its state is the list of the parameter dictionaries it
  has been sent, and what it answers is a function of the parameters.
\<close>

definition recording_transport ::
  "((string \<times> param) list \<Rightarrow> error + json) \<Rightarrow> (string \<times> param) list list transport" where
  "recording_transport server sent url params = (server params, sent @ [params])"

text \<open>A server that answers every request with the same page.\<close>

definition constant_server :: "json list \<Rightarrow> bool \<Rightarrow> (string \<times> param) list \<Rightarrow> error + json" where
  "constant_server fs flag params = Inr (page fs flag)"

text \<open>A server that has one page, at offset 0, and nothing at any other offset.\<close>

definition first_page_server ::
  "json list \<Rightarrow> bool \<Rightarrow> (string \<times> param) list \<Rightarrow> error + json" where
  "first_page_server fs flag params =
     (if map_of params ''resultOffset'' = Some (PInt 0) then Inr (page fs flag)
      else Inr (page [] False))"

text \<open>The offsets of a list of recorded requests.\<close>

definition offsets_requested :: "(string \<times> param) list list \<Rightarrow> param option list" where
  "offsets_requested sent = map (\<lambda>params. map_of params ''resultOffset'') sent"

text \<open>
  A transport whose state is the list of the pages still to be served: each request
  takes the next page, whatever offset it asks for, and an empty page comes when none
  is left.
\<close>

definition paged_transport :: "json list list transport" where
  "paged_transport pages url params =
     (case pages of
        [] \<Rightarrow> (Inr (page [] False), [])
      | p # rest \<Rightarrow> (Inr (page p False), rest))"

section \<open>Properties of the classifier\<close>

lemma py_startswith_prefix: "py_startswith k s = prefix k s"
  by (induction k s rule: py_startswith.induct) simp_all

lemma py_in_sublist: "py_in k s = sublist k s"
proof (induction s)
  case Nil
  show ?case by simp
next
  case (Cons c cs)
  show ?case
  proof (cases k)
    case Nil
    then show ?thesis by simp
  next
    case (Cons a as)
    then show ?thesis
      using Cons.IH by (simp add: py_startswith_prefix sublist_Cons_right)
  qed
qed

lemma classify_loop_find:
  "classify_loop tbl s =
     (case find (\<lambda>(keyword, t). sublist keyword s) tbl of
        None \<Rightarrow> OTHER
      | Some (keyword, t) \<Rightarrow> t)"
  by (induction tbl s rule: classify_loop.induct) (simp_all add: py_in_sublist)

lemma classify_refines_spec: "classify s = classify_spec s"
  by (simp add: classify_def classify_spec_def classify_loop_find
      source_mapping_def spec_keyword_table_def)

lemma classify_loop_no_match:
  "list_all (\<lambda>(keyword, t). \<not> sublist keyword s) tbl \<Longrightarrow> classify_loop tbl s = OTHER"
  by (induction tbl s rule: classify_loop.induct) (auto simp: py_in_sublist)

lemma classify_examples:
  "classify ''Hydro Pumped Storage'' = HYDRO"
  "classify ''Hydroelectric'' = HYDRO"
  by code_simp+

text \<open>
  C6: the classification is a total function of the primary-source string. It is the
  first-match search of the ordered keyword table on the lower-cased input that the
  specification describes (\<open>classify_spec\<close>); it does not tell apart two inputs that
  differ in case only; \<^verbatim>\<open>"Hydro Pumped Storage"\<close> and \<^verbatim>\<open>"Hydroelectric"\<close> are both
  \<open>HYDRO\<close>; an input that contains no keyword is \<open>OTHER\<close>; and on a plant whose
  primary source is a string the property returns that value and does not raise.
\<close>

theorem C6_classify_first_match:
  "classify s = classify_spec s
   \<and> classify ''Hydro Pumped Storage'' = HYDRO
   \<and> classify ''Hydroelectric'' = HYDRO
   \<and> (list_all (\<lambda>(keyword, t). \<not> sublist keyword (py_lower s)) source_mapping
        \<longrightarrow> classify s = OTHER)
   \<and> (py_lower s = py_lower s' \<longrightarrow> classify s = classify s')
   \<and> (primary_source plant = JStr s \<longrightarrow> primary_energy_type plant = Inr (classify s))"
proof -
  have a: "classify s = classify_spec s"
    by (rule classify_refines_spec)
  have b: "list_all (\<lambda>(keyword, t). \<not> sublist keyword (py_lower s)) source_mapping
             \<longrightarrow> classify s = OTHER"
    by (simp add: classify_def classify_loop_no_match)
  have c: "py_lower s = py_lower s' \<longrightarrow> classify s = classify s'"
    by (simp add: classify_def)
  have d: "primary_source plant = JStr s \<longrightarrow> primary_energy_type plant = Inr (classify s)"
    by (simp add: primary_energy_type_def)
  from a b c d classify_examples show ?thesis by blast
qed

lemma unknown_fuel_no_keyword:
  "list_all (\<lambda>(keyword, t). \<not> sublist keyword (py_lower ''Unknown Fuel'')) source_mapping"
  by code_simp

lemma unknown_fuel_lower: "py_lower ''UNKNOWN fuel'' = py_lower ''Unknown Fuel''"
  by code_simp

theorem C6_classify_first_match_witness:
  "classify ''Unknown Fuel'' = OTHER
   \<and> classify ''Unknown Fuel'' = classify ''UNKNOWN fuel''
   \<and> classify ''Unknown Fuel'' = classify_spec ''Unknown Fuel''
   \<and> primary_energy_type (example_plant 1 ''Unknown Fuel'') = Inr OTHER"
proof -
  have src: "primary_source (example_plant 1 ''Unknown Fuel'') = JStr ''Unknown Fuel''"
    by (simp add: example_plant_def)
  from C6_classify_first_match
         [of "''Unknown Fuel''" "''UNKNOWN fuel''" "example_plant 1 ''Unknown Fuel''"]
       unknown_fuel_no_keyword unknown_fuel_lower src
  show ?thesis by metis
qed

text \<open>
  C9: for each of the ten energy types that a keyword reaches, classifying the value
  (the label) of the enumeration member gives the member back.
\<close>

theorem C9_label_round_trip:
  "classify (EnergyType_value COAL) = COAL
   \<and> classify (EnergyType_value NATURAL_GAS) = NATURAL_GAS
   \<and> classify (EnergyType_value NUCLEAR) = NUCLEAR
   \<and> classify (EnergyType_value HYDRO) = HYDRO
   \<and> classify (EnergyType_value SOLAR) = SOLAR
   \<and> classify (EnergyType_value WIND) = WIND
   \<and> classify (EnergyType_value GEOTHERMAL) = GEOTHERMAL
   \<and> classify (EnergyType_value BIOMASS) = BIOMASS
   \<and> classify (EnergyType_value BATTERY) = BATTERY
   \<and> classify (EnergyType_value CRUDE_OIL) = CRUDE_OIL"
  by code_simp

section \<open>Properties of the response parser\<close>

lemma dict_get_absent: "map_of d k = None \<Longrightarrow> dict_get d k dflt = dflt"
  by (simp add: dict_get_def)

text \<open>
  C10, as amended: a feature whose \<^verbatim>\<open>geometry\<close> entry is absent or is an object
  without the keys \<^verbatim>\<open>y\<close> and \<^verbatim>\<open>x\<close>, and whose \<^verbatim>\<open>attributes\<close> entry is absent or
  is an object without \<^verbatim>\<open>Latitude\<close> and \<^verbatim>\<open>Longitude\<close>, parses without an
  exception, and the plant's location has the float zero as latitude and as longitude.
\<close>

theorem C10_missing_coordinates_default_zero:
  assumes geometry:
    "map_of fd ''geometry'' = None
     \<or> (\<exists>g. map_of fd ''geometry'' = Some (JObj g)
              \<and> map_of g ''y'' = None \<and> map_of g ''x'' = None)"
  and attributes:
    "map_of fd ''attributes'' = None
     \<or> (\<exists>a. map_of fd ''attributes'' = Some (JObj a)
              \<and> map_of a ''Latitude'' = None \<and> map_of a ''Longitude'' = None)"
  shows "\<exists>plant. parse_feature_to_power_plant (JObj fd) = Inr plant
            \<and> latitude (location plant) = JFloat 0
            \<and> longitude (location plant) = JFloat 0"
proof -
  obtain g where g: "dict_get fd ''geometry'' (JObj []) = JObj g"
    "map_of g ''y'' = None" "map_of g ''x'' = None"
    using geometry by (auto simp: dict_get_def)
  obtain a where a: "dict_get fd ''attributes'' (JObj []) = JObj a"
    "map_of a ''Latitude'' = None" "map_of a ''Longitude'' = None"
    using attributes by (auto simp: dict_get_def)
  show ?thesis
    by (simp add: parse_feature_to_power_plant_def g a dict_get_absent)
qed

theorem C10_missing_coordinates_default_zero_witness:
  "\<exists>plant. parse_feature_to_power_plant
             (JObj [(''attributes'', JObj [(''Plant_Code'', JInt 7)])]) = Inr plant
          \<and> latitude (location plant) = JFloat 0
          \<and> longitude (location plant) = JFloat 0"
  using C10_missing_coordinates_default_zero
          [of "[(''attributes'', JObj [(''Plant_Code'', JInt 7)])]"]
  by simp

text \<open>
  C10 as stated fails on a feature whose \<^verbatim>\<open>geometry\<close> or \<^verbatim>\<open>attributes\<close> key is
  present with the value null: such a feature has no geometry object and no
  \<^verbatim>\<open>Latitude\<close> or \<^verbatim>\<open>Longitude\<close>, and parsing it raises, since \<^verbatim>\<open>.get\<close> is called
  on \<^verbatim>\<open>None\<close>.
\<close>

theorem C10_null_geometry_counterexample:
  "parse_feature_to_power_plant (JObj [(''geometry'', JNull)]) = Inl AttributeError
   \<and> parse_feature_to_power_plant (JObj [(''attributes'', JNull)]) = Inl AttributeError"
  by (simp add: parse_feature_to_power_plant_def dict_get_def)

section \<open>Properties of the deduplication\<close>

lemma py_eq_JInt: "py_eq (JInt a) (JInt b) = (a = b)"
  by (simp add: py_eq_def)

lemma key_in_Nil: "key_in k [] = False"
  by (simp add: key_in_def)

lemma key_in_Cons: "key_in k ((k', v) # d) = (py_eq k' k \<or> key_in k d)"
  by (simp add: key_in_def)

lemma key_in_int:
  assumes "\<forall>(k, v)\<in>set d. \<exists>n. k = JInt n"
  shows "key_in (JInt m) d = (JInt m \<in> fst ` set d)"
  using assms
proof (induction d)
  case Nil
  show ?case by (simp add: key_in_Nil)
next
  case (Cons a d)
  obtain k v where a: "a = (k, v)" by (cases a)
  from Cons.prems a obtain n where k: "k = JInt n" by auto
  have rest: "\<forall>(k, v)\<in>set d. \<exists>n. k = JInt n" using Cons.prems by simp
  have "key_in (JInt m) (a # d) = (n = m \<or> key_in (JInt m) d)"
    unfolding a k key_in_Cons py_eq_JInt ..
  also have "\<dots> = (n = m \<or> JInt m \<in> fst ` set d)"
    using Cons.IH [OF rest] by simp
  also have "\<dots> = (JInt m \<in> fst ` set (a # d))"
    unfolding a k by auto
  finally show ?case .
qed

lemma filter_filter_code:
  "filter (\<lambda>q. plant_code q \<noteq> c) (filter (\<lambda>q. plant_code q \<notin> K) ps)
   = filter (\<lambda>q. plant_code q \<notin> insert c K) ps"
  by (induction ps) auto

lemma unique_plants_loop_spec:
  assumes "\<forall>p\<in>set plants. \<exists>n. plant_code p = JInt n"
      and "\<forall>(k, v)\<in>set d. \<exists>n. k = JInt n"
  shows "unique_plants_loop plants d =
           Inr (d @ map (\<lambda>p. (plant_code p, p))
                      (deduplicate_spec (filter (\<lambda>p. plant_code p \<notin> fst ` set d) plants)))"
  using assms
proof (induction plants arbitrary: d)
  case Nil
  show ?case by simp
next
  case (Cons p ps)
  from Cons.prems(1) obtain n where n: "plant_code p = JInt n" by auto
  have ps: "\<forall>p\<in>set ps. \<exists>n. plant_code p = JInt n" using Cons.prems(1) by simp
  have kin: "key_in (plant_code p) d = (plant_code p \<in> fst ` set d)"
    unfolding n by (rule key_in_int [OF Cons.prems(2)])
  have hash: "py_hashable (plant_code p)"
    unfolding n by simp
  show ?case
  proof (cases "plant_code p \<in> fst ` set d")
    case True
    have "unique_plants_loop (p # ps) d = unique_plants_loop ps d"
      using hash kin True by (simp del: py_hashable.simps)
    moreover have "filter (\<lambda>p. plant_code p \<notin> fst ` set d) (p # ps)
                     = filter (\<lambda>p. plant_code p \<notin> fst ` set d) ps"
      using True by simp
    ultimately show ?thesis
      using Cons.IH [OF ps Cons.prems(2)] by simp
  next
    case False
    let ?d = "d @ [(plant_code p, p)]"
    have d': "\<forall>(k, v)\<in>set ?d. \<exists>n. k = JInt n"
      using Cons.prems(2) n by auto
    have keys: "fst ` set ?d = insert (plant_code p) (fst ` set d)"
      by auto
    have step: "unique_plants_loop (p # ps) d = unique_plants_loop ps ?d"
      using hash kin False by (simp del: py_hashable.simps)
    have flt: "filter (\<lambda>q. plant_code q \<notin> fst ` set d) (p # ps)
                 = p # filter (\<lambda>q. plant_code q \<notin> fst ` set d) ps"
      using False by simp
    have "unique_plants_loop ps ?d =
            Inr (?d @ map (\<lambda>p. (plant_code p, p))
                   (deduplicate_spec
                      (filter (\<lambda>q. plant_code q \<notin> insert (plant_code p) (fst ` set d)) ps)))"
      using Cons.IH [OF ps d'] unfolding keys .
    moreover have "deduplicate_spec (p # filter (\<lambda>q. plant_code q \<notin> fst ` set d) ps)
        = p # deduplicate_spec
                (filter (\<lambda>q. plant_code q \<notin> insert (plant_code p) (fst ` set d)) ps)"
      by (simp only: deduplicate_spec.simps filter_filter_code)
    ultimately show ?thesis
      unfolding step flt by simp
  qed
qed

lemma final_plants_spec:
  assumes "\<forall>p\<in>set plants. \<exists>n. plant_code p = JInt n"
  shows "final_plants plants = Inr (deduplicate_spec plants)"
  using unique_plants_loop_spec [OF assms, of "[]"]
  by (simp add: final_plants_def comp_def)

lemma deduplicate_spec_codes:
  "plant_code ` set (deduplicate_spec ps) = plant_code ` set ps"
  by (induction ps rule: deduplicate_spec.induct) auto

lemma deduplicate_spec_distinct: "distinct (map plant_code (deduplicate_spec ps))"
proof (induction ps rule: deduplicate_spec.induct)
  case 1
  show ?case by simp
next
  case (2 p ps)
  have "plant_code p \<notin> plant_code ` set (deduplicate_spec (filter (\<lambda>q. plant_code q \<noteq> plant_code p) ps))"
    unfolding deduplicate_spec_codes by auto
  with 2 show ?case by simp
qed

lemma find_filter_implied:
  "(\<And>x. P x \<Longrightarrow> Q x) \<Longrightarrow> find P (filter Q xs) = find P xs"
  by (induction xs) auto

lemma deduplicate_spec_subset: "set (deduplicate_spec ps) \<subseteq> set ps"
  by (induction ps rule: deduplicate_spec.induct) auto

lemma deduplicate_spec_first:
  "q \<in> set (deduplicate_spec ps) \<Longrightarrow> find (\<lambda>p. plant_code p = plant_code q) ps = Some q"
proof (induction ps rule: deduplicate_spec.induct)
  case 1
  then show ?case by simp
next
  case (2 p ps)
  show ?case
  proof (cases "q = p")
    case True
    then show ?thesis by simp
  next
    case False
    with "2.prems" have mem: "q \<in> set (deduplicate_spec (filter (\<lambda>r. plant_code r \<noteq> plant_code p) ps))"
      by simp
    then have "q \<in> set (filter (\<lambda>r. plant_code r \<noteq> plant_code p) ps)"
      using deduplicate_spec_subset by blast
    then have ne: "plant_code q \<noteq> plant_code p" by simp
    have "find (\<lambda>r. plant_code r = plant_code q) (filter (\<lambda>r. plant_code r \<noteq> plant_code p) ps) = Some q"
      using "2.IH" [OF mem] .
    moreover have "find (\<lambda>r. plant_code r = plant_code q) (filter (\<lambda>r. plant_code r \<noteq> plant_code p) ps)
          = find (\<lambda>r. plant_code r = plant_code q) ps"
      by (rule find_filter_implied) (use ne in simp)
    ultimately show ?thesis using ne by simp
  qed
qed




text \<open>
  C7: on plants whose plant codes are integers, as the data class declares them, the
  deduplication of \<^verbatim>\<open>export_comprehensive_data\<close> does not raise and returns what the
  specification describes (\<open>deduplicate_spec\<close>): the plant codes of the result are
  pairwise different, they are exactly the plant codes of the input, and every plant of
  the result is the first plant of the input with its code. The plants with the codes
  1, 2, 1 give two plants, the first of them the first plant with code 1.
\<close>

theorem C7_deduplicate_first_wins:
  assumes "\<forall>p\<in>set plants. \<exists>n. plant_code p = JInt n"
  shows "\<exists>result. final_plants plants = Inr result
           \<and> result = deduplicate_spec plants
           \<and> distinct (map plant_code result)
           \<and> set (map plant_code result) = set (map plant_code plants)
           \<and> (\<forall>q\<in>set result. find (\<lambda>p. plant_code p = plant_code q) plants = Some q)"
proof (intro exI conjI)
  show "final_plants plants = Inr (deduplicate_spec plants)"
    by (rule final_plants_spec [OF assms])
  show "deduplicate_spec plants = deduplicate_spec plants" ..
  show "distinct (map plant_code (deduplicate_spec plants))"
    by (rule deduplicate_spec_distinct)
  show "set (map plant_code (deduplicate_spec plants)) = set (map plant_code plants)"
    by (simp only: set_map deduplicate_spec_codes)
  show "\<forall>q\<in>set (deduplicate_spec plants).
          find (\<lambda>p. plant_code p = plant_code q) plants = Some q"
    by (blast intro: deduplicate_spec_first)
qed

lemma example_plant_code: "plant_code (example_plant c s) = JInt c"
  by (simp add: example_plant_def)

theorem C7_deduplicate_first_wins_witness:
  "final_plants [example_plant 1 ''Coal'', example_plant 2 ''Wind'', example_plant 1 ''Solar'']
     = Inr [example_plant 1 ''Coal'', example_plant 2 ''Wind'']"
proof -
  let ?ps = "[example_plant 1 ''Coal'', example_plant 2 ''Wind'', example_plant 1 ''Solar'']"
  have h: "\<forall>p\<in>set ?ps. \<exists>n. plant_code p = JInt n"
    by (simp add: example_plant_code)
  have "deduplicate_spec ?ps = [example_plant 1 ''Coal'', example_plant 2 ''Wind'']"
    by (simp add: example_plant_code)
  with C7_deduplicate_first_wins [OF h] show ?thesis by simp
qed

section \<open>Properties of the pagination loop\<close>

lemma loop_body_page:
  assumes req: "make_request http s url (current_params params batch_size offset) = (Inr data, s')"
      and resp: "from_dict data = Inr response"
      and feats: "features response = JArr fs" "fs \<noteq> []"
      and parsed: "parse_features fs = Inr batch_plants"
  shows "loop_body http url params batch_size limit all_plants offset s =
           (let all_plants' = all_plants @ batch_plants;
                more = (if int (length fs) < batch_size \<or> truthy (exceeded_transfer_limit response)
                        then (Break all_plants', s')
                        else (Continue all_plants' (offset + int (length fs)), s'))
            in case limit of
                 None \<Rightarrow> more
               | Some l \<Rightarrow>
                   if l \<noteq> 0 \<and> l \<le> int (length all_plants')
                   then (Break (py_slice_to all_plants' l), s')
                   else more)"
  by (simp add: loop_body_def req resp feats parsed)

lemma pagination_loop_Raise:
  "loop_body http url params batch_size limit all_plants offset s = (Raise e, s')
   \<Longrightarrow> pagination_loop http url params batch_size limit all_plants offset s = Some (Inl e, s')"
  by (subst pagination_loop.simps) simp

lemma pagination_loop_Break:
  "loop_body http url params batch_size limit all_plants offset s = (Break plants, s')
   \<Longrightarrow> pagination_loop http url params batch_size limit all_plants offset s = Some (Inr plants, s')"
  by (subst pagination_loop.simps) simp

lemma pagination_loop_Continue:
  "loop_body http url params batch_size limit all_plants offset s = (Continue plants offset', s')
   \<Longrightarrow> pagination_loop http url params batch_size limit all_plants offset s
       = pagination_loop http url params batch_size limit plants offset' s'"
  by (subst pagination_loop.simps) simp

lemma map_of_dict_set: "map_of (dict_set d k v) = (map_of d)(k \<mapsto> v)"
  by (induction d k v rule: dict_set.induct) auto

lemma current_params_offset:
  "map_of (current_params params batch_size offset) ''resultOffset'' = Some (PInt offset)"
  by (simp add: current_params_def Let_def map_of_dict_set)

lemma parse_example_feature:
  "parse_feature_to_power_plant (example_feature code src) = Inr (example_plant code src)"
  by (simp add: parse_feature_to_power_plant_def example_feature_def example_plant_def
      dict_get_def)

lemma parse_features_replicate:
  "parse_feature_to_power_plant feature = Inr plant
   \<Longrightarrow> parse_features (replicate n feature) = Inr (replicate n plant)"
  by (induction n) simp_all

lemma parse_features_length:
  "parse_features fs = Inr plants \<Longrightarrow> length plants = length fs"
  by (induction fs arbitrary: plants) (auto split: sum.splits)

lemma from_dict_page:
  "from_dict (page fs flag) =
     Inr \<lparr>object_id_field_name = JStr '''', geometry_type = JStr '''',
          spatial_reference = JObj [], fields_list = JArr [],
          features = JArr fs, exceeded_transfer_limit = JBool flag\<rparr>"
  by (simp add: from_dict_def page_def dict_get_def)

lemma make_request_recording_page:
  "server params = Inr (page fs flag)
   \<Longrightarrow> make_request (recording_transport server) sent url params
         = (Inr (page fs flag), sent @ [params])"
  by (simp add: make_request_def recording_transport_def page_def)

lemma loop_body_recording_empty:
  assumes "server (current_params params batch_size offset) = Inr (page [] flag)"
  shows "loop_body (recording_transport server) url params batch_size limit all_plants offset sent
           = (Break all_plants, sent @ [current_params params batch_size offset])"
proof -
  have "make_request (recording_transport server) sent url (current_params params batch_size offset)
          = (Inr (page [] flag), sent @ [current_params params batch_size offset])"
    using assms by (rule make_request_recording_page [where server = server])
  then show ?thesis
    by (simp add: loop_body_def from_dict_page)
qed

lemma loop_body_recording_page:
  assumes "server (current_params params batch_size offset) = Inr (page fs flag)"
      and "fs \<noteq> []" and "parse_features fs = Inr batch_plants"
  shows "loop_body (recording_transport server) url params batch_size limit all_plants offset sent =
           (let all_plants' = all_plants @ batch_plants;
                s' = sent @ [current_params params batch_size offset];
                more = (if int (length fs) < batch_size \<or> flag
                        then (Break all_plants', s')
                        else (Continue all_plants' (offset + int (length fs)), s'))
            in case limit of
                 None \<Rightarrow> more
               | Some l \<Rightarrow>
                   if l \<noteq> 0 \<and> l \<le> int (length all_plants')
                   then (Break (py_slice_to all_plants' l), s')
                   else more)"
proof -
  have req: "make_request (recording_transport server) sent url
               (current_params params batch_size offset)
          = (Inr (page fs flag), sent @ [current_params params batch_size offset])"
    using assms(1) by (rule make_request_recording_page [where server = server])
  show ?thesis
    using loop_body_page [OF req from_dict_page _ assms(2,3)]
    by (simp add: Let_def)
qed

lemma first_page_server_current:
  "first_page_server fs flag (current_params params batch_size offset)
     = (if offset = 0 then Inr (page fs flag) else Inr (page [] False))"
  by (simp add: first_page_server_def current_params_offset)


lemma run_first_page_stops:
  assumes "fs \<noteq> []" and "parse_features fs = Inr batch_plants"
      and "int (length fs) < batch_size \<or> flag"
  shows "pagination_loop (recording_transport (first_page_server fs flag)) url params
           batch_size None [] 0 []
         = Some (Inr batch_plants, [current_params params batch_size 0])"
proof -
  have "loop_body (recording_transport (first_page_server fs flag)) url params
          batch_size None [] 0 []
        = (Break batch_plants, [current_params params batch_size 0])"
    using assms(3)
    by (simp add: loop_body_recording_page [where fs = fs and flag = flag, OF _ assms(1,2)]
        first_page_server_current)
  then show ?thesis by (rule pagination_loop_Break)
qed

lemma run_first_page_continues:
  assumes "fs \<noteq> []" and "parse_features fs = Inr batch_plants"
      and "\<not> int (length fs) < batch_size"
  shows "pagination_loop (recording_transport (first_page_server fs False)) url params
           batch_size None [] 0 []
         = Some (Inr batch_plants,
                 [current_params params batch_size 0,
                  current_params params batch_size (int (length fs))])"
proof -
  let ?T = "recording_transport (first_page_server fs False)"
  let ?s1 = "[current_params params batch_size 0]"
  have first: "loop_body ?T url params batch_size None [] 0 []
        = (Continue batch_plants (int (length fs)), ?s1)"
    using assms(3)
    by (simp add: loop_body_recording_page [where fs = fs and flag = False, OF _ assms(1,2)]
        first_page_server_current)
  have "int (length fs) \<noteq> 0" using assms(1) by simp
  then have "first_page_server fs False (current_params params batch_size (int (length fs)))
          = Inr (page [] False)"
    by (simp add: first_page_server_current)
  then have second: "loop_body ?T url params batch_size None batch_plants (int (length fs)) ?s1
        = (Break batch_plants, ?s1 @ [current_params params batch_size (int (length fs))])"
    by (rule loop_body_recording_empty)
  show ?thesis
    using pagination_loop_Continue [OF first] pagination_loop_Break [OF second] by simp
qed

lemma default_no_record_count: "result_record_count default_query_params = None"
  by (simp add: default_query_params_def)

lemma get_power_plants_all_default:
  "get_power_plants http ''all_plants'' None None s =
     map_option (\<lambda>(r, s'). (r, None, s'))
       (pagination_loop http (build_url ''ElectricPowerPlants/FeatureServer/0'')
          (to_dict default_query_params) 1000 None [] 0 s)"
  by (simp add: get_power_plants_def SERVICES_def limit_set_def default_no_record_count)

lemma thousand_features:
  "replicate 1000 (example_feature 1 ''Coal'') \<noteq> []"
  "parse_features (replicate 1000 (example_feature 1 ''Coal''))
     = Inr (replicate 1000 (example_plant 1 ''Coal''))"
  by (simp_all add: parse_features_replicate parse_example_feature)

text \<open>
  C1 as stated fails on both of its examples. Against a server that holds one page of
  1000 features, with page size 1000 and no limit: when the page carries the flag
  true, the call returns after the single request at offset 0; when it carries the flag
  false, the call sends a second request, at offset 1000.
\<close>

theorem C1_full_page_counterexample:
  "map_option (\<lambda>(r, qp, sent). (r, offsets_requested sent))
     (get_power_plants
        (recording_transport (first_page_server (replicate 1000 (example_feature 1 ''Coal'')) True))
        ''all_plants'' None None [])
   = Some (Inr (replicate 1000 (example_plant 1 ''Coal'')), [Some (PInt 0)])
   \<and> map_option (\<lambda>(r, qp, sent). (r, offsets_requested sent))
     (get_power_plants
        (recording_transport (first_page_server (replicate 1000 (example_feature 1 ''Coal'')) False))
        ''all_plants'' None None [])
   = Some (Inr (replicate 1000 (example_plant 1 ''Coal'')), [Some (PInt 0), Some (PInt 1000)])"
proof -
  have a: "pagination_loop
        (recording_transport (first_page_server (replicate 1000 (example_feature 1 ''Coal'')) True))
        url params 1000 None [] 0 []
      = Some (Inr (replicate 1000 (example_plant 1 ''Coal'')), [current_params params 1000 0])"
    for url params
    by (rule run_first_page_stops [OF thousand_features]) simp
  have b: "pagination_loop
        (recording_transport (first_page_server (replicate 1000 (example_feature 1 ''Coal'')) False))
        url params 1000 None [] 0 []
      = Some (Inr (replicate 1000 (example_plant 1 ''Coal'')),
              [current_params params 1000 0, current_params params 1000 1000])"
    for url params
    using run_first_page_continues [OF thousand_features, of 1000 url params] by simp
  show ?thesis
    by (simp add: get_power_plants_all_default a b offsets_requested_def current_params_offset)
qed

text \<open>
  C1, as amended: after a page that is not empty, whose features parse, with which the
  accumulator stays below a limit that is set, and whose exceeded-transfer-limit flag is
  false, the loop ends exactly when the page has fewer features than the page size;
  otherwise it goes on, at the offset advanced by the number of features. A page of
  1000 features at page size 1000 with the flag false therefore goes on to a next page.
  The behaviour on a page whose flag is true is left out of the statement.
\<close>

theorem C1_page_ends_loop:
  assumes req: "make_request http s url (current_params params batch_size offset) = (Inr data, s')"
      and resp: "from_dict data = Inr response"
      and feats: "features response = JArr fs" "fs \<noteq> []"
      and parsed: "parse_features fs = Inr batch_plants"
      and limit: "limit = None \<or> limit = Some 0
                  \<or> (\<exists>l. limit = Some l \<and> int (length (all_plants @ batch_plants)) < l)"
      and flag: "\<not> truthy (exceeded_transfer_limit response)"
  shows "loop_body http url params batch_size limit all_plants offset s =
           (if int (length fs) < batch_size
            then (Break (all_plants @ batch_plants), s')
            else (Continue (all_plants @ batch_plants) (offset + int (length fs)), s'))"
  using limit flag
  by (auto simp: loop_body_page [OF req resp feats parsed] Let_def)

theorem C1_page_ends_loop_witness:
  "loop_body (recording_transport (constant_server (replicate 1000 (example_feature 1 ''Coal'')) False))
     (build_url ''ElectricPowerPlants/FeatureServer/0'') (to_dict default_query_params)
     1000 None [] 0 []
   = (Continue (replicate 1000 (example_plant 1 ''Coal'')) 1000,
      [current_params (to_dict default_query_params) 1000 0])"
proof -
  let ?fs = "replicate 1000 (example_feature 1 ''Coal'')"
  let ?cp = "current_params (to_dict default_query_params) 1000 0"
  have req: "make_request (recording_transport (constant_server ?fs False)) []
               (build_url ''ElectricPowerPlants/FeatureServer/0'') ?cp
             = (Inr (page ?fs False), [] @ [?cp])"
    by (rule make_request_recording_page) (simp add: constant_server_def)
  show ?thesis
    using C1_page_ends_loop [OF req from_dict_page _ thousand_features, of None "[]"]
    by simp
qed

lemma to_dict_record_count:
  "result_record_count qp = Some n
   \<Longrightarrow> map_of (to_dict qp) ''resultRecordCount'' = Some (PInt n)"
  by (simp add: to_dict_def Let_def map_of_dict_set split: option.splits)

lemma current_params_record_count:
  "result_record_count qp = Some n
   \<Longrightarrow> map_of (current_params (to_dict qp) batch_size offset) ''resultRecordCount''
         = Some (PInt n)"
  by (simp add: current_params_def Let_def map_of_dict_set to_dict_record_count)

lemma get_power_plants_limit:
  assumes "l \<noteq> 0" and "map_of SERVICES service = Some service_path"
  shows "get_power_plants http service query_params (Some l) s =
           map_option
             (\<lambda>(r, s').
                (r,
                 map_option (\<lambda>q. (case query_params of None \<Rightarrow> default_query_params | Some q \<Rightarrow> q)
                                     \<lparr>result_record_count := Some l\<rparr>) query_params,
                 s'))
             (pagination_loop http (build_url service_path)
                (to_dict ((case query_params of None \<Rightarrow> default_query_params | Some q \<Rightarrow> q)
                            \<lparr>result_record_count := Some l\<rparr>))
                l (Some l) [] 0 s)"
  using assms by (simp add: get_power_plants_def limit_set_def Let_def)

text \<open>
  C3, as amended: a call with a positive limit asks for pages of \<open>limit\<close> records
  (\<^verbatim>\<open>resultRecordCount\<close> is the limit) and ends with its first page. When the first
  response arrives and its features parse, the call returns the first \<open>limit\<close> plants
  of that page, all of them when the page has fewer, and the transport is left in the
  state after that one request: a page that reaches the limit is cut to exactly
  \<open>limit\<close> records, and a shorter page ends the loop as a short page.
\<close>

theorem C3_limit_ends_at_first_page:
  assumes l: "0 < l"
      and svc: "map_of SERVICES service = Some service_path"
      and qp: "qp = (case query_params of None \<Rightarrow> default_query_params | Some q \<Rightarrow> q)
                      \<lparr>result_record_count := Some l\<rparr>"
      and req: "make_request http s (build_url service_path) (current_params (to_dict qp) l 0)
                  = (Inr data, s')"
      and resp: "from_dict data = Inr response"
      and feats: "features response = JArr fs"
      and parsed: "parse_features fs = Inr batch_plants"
  shows "get_power_plants http service query_params (Some l) s
           = Some (Inr (take (nat l) batch_plants), map_option (\<lambda>q. qp) query_params, s')
         \<and> length (take (nat l) batch_plants) = min (nat l) (length fs)
         \<and> map_of (current_params (to_dict qp) l 0) ''resultRecordCount'' = Some (PInt l)"
proof -
  have len: "length batch_plants = length fs"
    using parsed by (rule parse_features_length)
  have body: "loop_body http (build_url service_path) (to_dict qp) l (Some l) [] 0 s
                = (Break (take (nat l) batch_plants), s')"
  proof (cases "fs = []")
    case True
    then have "batch_plants = []" using parsed by simp
    then show ?thesis
      using True by (simp add: loop_body_def req resp feats)
  next
    case False
    show ?thesis
    proof (cases "l \<le> int (length batch_plants)")
      case True
      then show ?thesis
        using l by (simp add: loop_body_page [OF req resp feats False parsed] py_slice_to_def)
    next
      case False
      then show ?thesis
        using l len by (simp add: loop_body_page [OF req resp feats \<open>fs \<noteq> []\<close> parsed])
    qed
  qed
  have "get_power_plants http service query_params (Some l) s
           = Some (Inr (take (nat l) batch_plants), map_option (\<lambda>q. qp) query_params, s')"
    using l by (simp add: get_power_plants_limit [OF _ svc] qp [symmetric]
        pagination_loop_Break [OF body])
  moreover have "length (take (nat l) batch_plants) = min (nat l) (length fs)"
    using len by (simp add: min.commute)
  moreover have "map_of (current_params (to_dict qp) l 0) ''resultRecordCount'' = Some (PInt l)"
    by (rule current_params_record_count) (simp add: qp)
  ultimately show ?thesis by simp
qed


lemma constant_server_page: "constant_server fs flag params = Inr (page fs flag)"
  by (simp add: constant_server_def)

lemma run_constant_empty:
  "pagination_loop (recording_transport (constant_server [] flag)) url params
     batch_size limit [] 0 []
   = Some (Inr [], [current_params params batch_size 0])"
proof -
  have "loop_body (recording_transport (constant_server [] flag)) url params
          batch_size limit [] 0 []
        = (Break [], [] @ [current_params params batch_size 0])"
    by (rule loop_body_recording_empty) (rule constant_server_page)
  then show ?thesis
    using pagination_loop_Break by fastforce
qed

lemma run_constant_short_page:
  assumes "fs \<noteq> []" and "parse_features fs = Inr batch_plants"
      and "int (length fs) < batch_size"
      and "limit = None \<or> (\<exists>l. limit = Some l \<and> int (length fs) < l)"
  shows "pagination_loop (recording_transport (constant_server fs flag)) url params
           batch_size limit [] 0 []
         = Some (Inr batch_plants, [current_params params batch_size 0])"
proof -
  have len: "length batch_plants = length fs"
    using assms(2) by (rule parse_features_length)
  have "loop_body (recording_transport (constant_server fs flag)) url params
          batch_size limit [] 0 []
        = (Break batch_plants, [current_params params batch_size 0])"
    using assms(3,4) len
    by (auto simp: loop_body_recording_page [where fs = fs and flag = flag, OF _ assms(1,2)]
        constant_server_page)
  then show ?thesis by (rule pagination_loop_Break)
qed

lemma five_features:
  "replicate 5 (example_feature 1 ''Coal'') \<noteq> []"
  "parse_features (replicate 5 (example_feature 1 ''Coal''))
     = Inr (replicate 5 (example_plant 1 ''Coal''))"
  by (simp_all add: parse_features_replicate parse_example_feature)

lemma all_plants_service:
  "map_of SERVICES ''all_plants'' = Some ''ElectricPowerPlants/FeatureServer/0''"
  by (simp add: SERVICES_def)

text \<open>
  C3 as stated fails on its example: with limit 7 against a transport that answers
  every request with a page of 5 features, the call returns 5 plants and has sent one
  request. The limit is the batch size, so the first page, shorter than 7, ends the loop.
\<close>

theorem C3_limit_7_pages_of_5_counterexample:
  "map_option (\<lambda>(r, qp, sent). (r, length sent))
     (get_power_plants
        (recording_transport (constant_server (replicate 5 (example_feature 1 ''Coal'')) False))
        ''all_plants'' None (Some 7) [])
   = Some (Inr (replicate 5 (example_plant 1 ''Coal'')), 1)"
proof -
  have "pagination_loop
          (recording_transport (constant_server (replicate 5 (example_feature 1 ''Coal'')) False))
          url params 7 (Some 7) [] 0 []
        = Some (Inr (replicate 5 (example_plant 1 ''Coal'')), [current_params params 7 0])"
    for url params
    by (rule run_constant_short_page [OF five_features]) simp_all
  then show ?thesis
    by (simp add: get_power_plants_limit [OF _ all_plants_service])
qed

theorem C3_limit_ends_at_first_page_witness:
  "get_power_plants
     (recording_transport (constant_server (replicate 10 (example_feature 1 ''Coal'')) False))
     ''all_plants'' None (Some 7) []
   = Some (Inr (replicate 7 (example_plant 1 ''Coal'')), None,
           [current_params (to_dict (default_query_params\<lparr>result_record_count := Some 7\<rparr>)) 7 0])
   \<and> map_of (current_params (to_dict (default_query_params\<lparr>result_record_count := Some 7\<rparr>)) 7 0)
        ''resultRecordCount'' = Some (PInt 7)"
proof -
  let ?fs = "replicate 10 (example_feature 1 ''Coal'')"
  let ?qp = "default_query_params\<lparr>result_record_count := Some 7\<rparr>"
  let ?cp = "current_params (to_dict ?qp) 7 0"
  have req: "make_request (recording_transport (constant_server ?fs False)) []
               (build_url ''ElectricPowerPlants/FeatureServer/0'') ?cp
             = (Inr (page ?fs False), [] @ [?cp])"
    by (rule make_request_recording_page) (rule constant_server_page)
  have parsed: "parse_features ?fs = Inr (replicate 10 (example_plant 1 ''Coal''))"
    by (simp add: parse_features_replicate parse_example_feature)
  have qp: "?qp = (case None of None \<Rightarrow> default_query_params | Some q \<Rightarrow> q)
                     \<lparr>result_record_count := Some 7\<rparr>"
    by simp
  have l: "(0::int) < 7" by simp
  show ?thesis
    using C3_limit_ends_at_first_page [OF l all_plants_service qp req from_dict_page _ parsed]
    by simp
qed

text \<open>
  C5, as amended: when a call with a query-parameter object returns or raises, the
  object is the one passed in, except that a limit that is set (neither \<^verbatim>\<open>None\<close> nor
  0), on a known service, has been written into \<open>result_record_count\<close>. Every other
  field keeps its value, and without such a limit the object is unchanged.
\<close>

theorem C5_query_params_after_call:
  assumes "get_power_plants http service (Some qp) limit s = Some (r, qp', s')"
  shows "qp' = Some (if limit_set limit \<and> map_of SERVICES service \<noteq> None
                      then qp\<lparr>result_record_count := limit\<rparr> else qp)"
  using assms
  by (auto simp: get_power_plants_def Let_def split: option.splits if_splits)

theorem C5_query_params_after_call_witness:
  "get_power_plants (recording_transport (constant_server [] False)) ''all_plants''
          (Some default_query_params) None []
        = Some (Inr [], Some default_query_params,
                [current_params (to_dict default_query_params) 1000 0])
   \<and> Some default_query_params
     = Some (if limit_set None \<and> map_of SERVICES ''all_plants'' \<noteq> None
             then default_query_params\<lparr>result_record_count := None\<rparr>
             else default_query_params)"
proof -
  have "get_power_plants (recording_transport (constant_server [] False)) ''all_plants''
          (Some default_query_params) None []
        = Some (Inr [], Some default_query_params,
                [current_params (to_dict default_query_params) 1000 0])"
    by (simp add: get_power_plants_def all_plants_service limit_set_def
        default_no_record_count run_constant_empty)
  with C5_query_params_after_call [OF this] show ?thesis by blast
qed

text \<open>
  C5 as stated fails: a call with limit 5 on the default query parameters, whose
  \<open>result_record_count\<close> is \<^verbatim>\<open>None\<close>, leaves 5 in that field of the caller's object.
\<close>

theorem C5_limit_written_counterexample:
  "map_option (\<lambda>(r, qp, sent). map_option result_record_count qp)
     (get_power_plants (recording_transport (constant_server [] False)) ''all_plants''
        (Some default_query_params) (Some 5) [])
   = Some (Some (Some 5))
   \<and> result_record_count default_query_params = None"
  by (simp add: get_power_plants_limit [OF _ all_plants_service] run_constant_empty
      default_no_record_count)

section \<open>The offsets of the requests of a run\<close>

lemma check_api_error_Inr: "check_api_error data = Inr d \<Longrightarrow> d = data"
  by (cases data) (auto split: option.splits sum.splits if_splits)

lemma make_request_recorded:
  "make_request (recorded http) (s, tr) url params =
     (case make_request http s url params of
        (r, s') \<Rightarrow> (r, (s', tr @ [(params, fst (http s url params))])))"
  by (cases "http s url params") (auto simp: make_request_def recorded_def split: sum.splits)

lemma loop_body_request:
  "loop_body http url params batch_size limit all_plants offset s = (out, s')
   \<Longrightarrow> snd (make_request http s url (current_params params batch_size offset)) = s'"
  by (auto simp: loop_body_def Let_def split: prod.splits sum.splits if_splits option.splits)


lemma loop_body_same_answer:
  assumes "make_request T st url (current_params params batch_size offset) = (r, st')"
      and "make_request http s url (current_params params batch_size offset) = (r, s')"
  shows "loop_body T url params batch_size limit all_plants offset st
           = (fst (loop_body http url params batch_size limit all_plants offset s), st')"
  by (simp add: loop_body_def assms Let_def split: sum.splits option.splits)

lemma loop_body_recorded:
  "loop_body (recorded http) url params batch_size limit all_plants offset (s, tr) =
     (case loop_body http url params batch_size limit all_plants offset s of
        (out, s') \<Rightarrow>
          (out, (s', tr @ [(current_params params batch_size offset,
                            fst (http s url (current_params params batch_size offset)))])))"
proof -
  let ?cp = "current_params params batch_size offset"
  obtain r s' where plain: "make_request http s url ?cp = (r, s')"
    by (cases "make_request http s url ?cp")
  have rec: "make_request (recorded http) (s, tr) url ?cp
               = (r, (s', tr @ [(?cp, fst (http s url ?cp))]))"
    by (simp add: make_request_recorded plain)
  obtain out s'' where body: "loop_body http url params batch_size limit all_plants offset s = (out, s'')"
    by (cases "loop_body http url params batch_size limit all_plants offset s")
  have "s'' = s'"
    using loop_body_request [OF body] plain by simp
  then show ?thesis
    using loop_body_same_answer [OF rec plain, of limit all_plants] body by simp
qed

lemma loop_body_Continue_received:
  assumes "loop_body http url params batch_size limit all_plants offset s
             = (Continue all_plants' offset', s')"
  shows "\<exists>n. received_count (fst (http s url (current_params params batch_size offset))) = Some n
             \<and> 0 < n \<and> offset' = offset + int n"
proof -
  let ?cp = "current_params params batch_size offset"
  from assms obtain data response feats where
    req: "make_request http s url ?cp = (Inr data, s')" and
    resp: "from_dict data = Inr response" and
    it: "py_iter (features response) = Inr feats" and
    tr: "truthy (features response)" and
    off: "offset' = offset + int (length feats)"
    by (auto simp: loop_body_def Let_def
             split: prod.splits sum.splits if_splits option.splits)
  from req obtain raw where raw: "fst (http s url ?cp) = Inr raw" and chk: "check_api_error raw = Inr data"
    by (cases "http s url ?cp") (auto simp: make_request_def split: sum.splits)
  from check_api_error_Inr [OF chk] have "raw = data" by simp
  then have cnt: "received_count (fst (http s url ?cp)) = Some (length feats)"
    using raw resp it by simp
  have "feats \<noteq> []"
    using tr it by (cases "features response") auto
  with cnt off show ?thesis by simp
qed


lemma offsets_chain_step:
  assumes "map_of params ''resultOffset'' = Some (PInt offset)"
      and "received_count r = Some n"
      and "offsets_chain (offset + int n) rest"
  shows "offsets_chain offset ((params, r) # rest)"
  using assms by (cases rest) simp_all

lemma pagination_loop_recorded_chain:
  assumes run: "pagination_loop (recorded http) url params batch_size limit all_plants offset
                  (s, tr) = Some (res, (s', tr'))"
  shows "\<exists>new. tr' = tr @ new \<and> new \<noteq> [] \<and> offsets_chain offset new"
proof -
  define P where
    "P = (\<lambda>T (url :: string) (params :: (string \<times> param) list) (batch_size :: int)
            (limit :: int option) (all_plants :: PowerPlant list) (offset :: int)
            (st :: 'a \<times> exchange list) (y :: (error + PowerPlant list) \<times> 'a \<times> exchange list).
            T = recorded http \<longrightarrow>
            (\<exists>new. snd (snd y) = snd st @ new \<and> new \<noteq> [] \<and> offsets_chain offset new))"
  have "P (recorded http) url params batch_size limit all_plants offset (s, tr) (res, (s', tr'))"
  proof (rule pagination_loop.raw_induct [where P = P, OF _ run])
    fix loop T url params batch_size limit all_plants offset st y
    assume IH: "\<And>url params batch_size limit all_plants offset s b y.
                  loop url params batch_size limit all_plants offset s b = Some y
                  \<Longrightarrow> P url params batch_size limit all_plants offset s b y"
      and eq: "(case loop_body T url params batch_size limit all_plants offset st of
                  (Raise e, s') \<Rightarrow> Some (Inl e, s')
                | (Break plants, s') \<Rightarrow> Some (Inr plants, s')
                | (Continue plants offset', s') \<Rightarrow>
                    loop T url params batch_size limit plants offset' s') = Some y"
    show "P T url params batch_size limit all_plants offset st y"
      unfolding P_def
    proof
      assume T: "T = recorded http"
      obtain s tr where st: "st = (s, tr)" by (cases st)
      let ?cp = "current_params params batch_size offset"
      let ?x = "(?cp, fst (http s url ?cp))"
      obtain out s' where
        plain: "loop_body http url params batch_size limit all_plants offset s = (out, s')"
        by (cases "loop_body http url params batch_size limit all_plants offset s")
      have body: "loop_body T url params batch_size limit all_plants offset st
                    = (out, (s', tr @ [?x]))"
        using plain by (simp add: T st loop_body_recorded)
      have one: "offsets_chain offset [?x]"
        by (simp add: current_params_offset)
      show "\<exists>new. snd (snd y) = snd st @ new \<and> new \<noteq> [] \<and> offsets_chain offset new"
      proof (cases out)
        case (Raise e)
        with eq body have "y = (Inl e, (s', tr @ [?x]))" by simp
        with one st show ?thesis by auto
      next
        case (Break plants)
        with eq body have "y = (Inr plants, (s', tr @ [?x]))" by simp
        with one st show ?thesis by auto
      next
        case (Continue plants offset')
        with eq body
        have "loop T url params batch_size limit plants offset' (s', tr @ [?x]) = Some y"
          by simp
        from IH [OF this] T obtain new where
          new: "snd (snd y) = (tr @ [?x]) @ new" "new \<noteq> []" "offsets_chain offset' new"
          unfolding P_def by auto
        from plain Continue
        have "loop_body http url params batch_size limit all_plants offset s
                = (Continue plants offset', s')"
          by simp
        from loop_body_Continue_received [OF this] obtain n where
          n: "received_count (fst (http s url ?cp)) = Some n" "offset' = offset + int n"
          by blast
        have "offsets_chain offset (?x # new)"
          using new(3) n by (intro offsets_chain_step) (simp_all add: current_params_offset)
        with new(1) st show ?thesis by auto
      qed
    qed
  qed
  then show ?thesis
    unfolding P_def by simp
qed


lemma pagination_loop_recorded_returns:
  assumes run: "pagination_loop http url params batch_size limit all_plants offset s
                  = Some (res, s')"
  shows "\<exists>tr'. pagination_loop (recorded http) url params batch_size limit all_plants offset
                 (s, tr) = Some (res, (s', tr'))"
proof -
  define P where
    "P = (\<lambda>(h :: 'a transport) (url :: string) (params :: (string \<times> param) list)
            (batch_size :: int) (limit :: int option) (all_plants :: PowerPlant list)
            (offset :: int) (s :: 'a) (y :: (error + PowerPlant list) \<times> 'a).
            \<forall>tr. \<exists>tr'. pagination_loop (recorded h) url params batch_size limit all_plants
                          offset (s, tr) = Some (fst y, (snd y, tr')))"
  have "P http url params batch_size limit all_plants offset s (res, s')"
  proof (rule pagination_loop.raw_induct [where P = P, OF _ run])
    fix loop h url params batch_size limit all_plants offset s y
    assume IH: "\<And>url params batch_size limit all_plants offset s b y.
                  loop url params batch_size limit all_plants offset s b = Some y
                  \<Longrightarrow> P url params batch_size limit all_plants offset s b y"
      and eq: "(case loop_body h url params batch_size limit all_plants offset s of
                  (Raise e, s') \<Rightarrow> Some (Inl e, s')
                | (Break plants, s') \<Rightarrow> Some (Inr plants, s')
                | (Continue plants offset', s') \<Rightarrow>
                    loop h url params batch_size limit plants offset' s') = Some y"
    show "P h url params batch_size limit all_plants offset s y"
      unfolding P_def
    proof
      fix tr
      let ?cp = "current_params params batch_size offset"
      let ?x = "(?cp, fst (h s url ?cp))"
      obtain out s' where
        plain: "loop_body h url params batch_size limit all_plants offset s = (out, s')"
        by (cases "loop_body h url params batch_size limit all_plants offset s")
      have body: "loop_body (recorded h) url params batch_size limit all_plants offset (s, tr)
                    = (out, (s', tr @ [?x]))"
        using plain by (simp add: loop_body_recorded)
      show "\<exists>tr'. pagination_loop (recorded h) url params batch_size limit all_plants
                     offset (s, tr) = Some (fst y, (snd y, tr'))"
      proof (cases out)
        case (Raise e)
        with eq plain have y: "y = (Inl e, s')" by simp
        from body Raise have "pagination_loop (recorded h) url params batch_size limit
            all_plants offset (s, tr) = Some (Inl e, (s', tr @ [?x]))"
          by (intro pagination_loop_Raise) simp
        with y show ?thesis by simp
      next
        case (Break plants)
        with eq plain have y: "y = (Inr plants, s')" by simp
        from body Break have "pagination_loop (recorded h) url params batch_size limit
            all_plants offset (s, tr) = Some (Inr plants, (s', tr @ [?x]))"
          by (intro pagination_loop_Break) simp
        with y show ?thesis by simp
      next
        case (Continue plants offset')
        with eq plain
        have "loop h url params batch_size limit plants offset' s' = Some y"
          by simp
        from IH [OF this] obtain tr' where
          next_run: "pagination_loop (recorded h) url params batch_size limit plants offset'
                 (s', tr @ [?x]) = Some (fst y, (snd y, tr'))"
          unfolding P_def by blast
        from body Continue have "pagination_loop (recorded h) url params batch_size limit
            all_plants offset (s, tr)
          = pagination_loop (recorded h) url params batch_size limit plants offset'
              (s', tr @ [?x])"
          by (intro pagination_loop_Continue) simp
        with next_run show ?thesis by simp
      qed
    qed
  qed
  then show ?thesis
    unfolding P_def by simp
qed

text \<open>
  C2: for every transport and every call of \<^verbatim>\<open>get_power_plants\<close> that returns or
  raises, the same call observed through the recorder ends the same way, and the
  requests it has sent form an offset chain from 0: the first request carries
  \<^verbatim>\<open>resultOffset\<close> 0, and each further request carries the offset of the request
  before it plus the number of features received in answer to that request, whatever
  the page size is.
\<close>

theorem C2_offsets_advance_by_received:
  assumes "get_power_plants http service query_params limit s = Some (res, qp', s')"
  shows "\<exists>tr. get_power_plants (recorded http) service query_params limit (s, [])
                = Some (res, qp', (s', tr))
              \<and> offsets_chain 0 tr"
proof (cases "map_of SERVICES service")
  case None
  with assms have "res = Inl ValueError" "qp' = query_params" "s' = s"
    by (simp_all add: get_power_plants_def)
  with None show ?thesis
    by (simp add: get_power_plants_def)
next
  case (Some service_path)
  define qp where
    "qp = (let q = (case query_params of None \<Rightarrow> default_query_params | Some q \<Rightarrow> q)
           in if limit_set limit then q\<lparr>result_record_count := limit\<rparr> else q)"
  define batch_size where
    "batch_size = (case result_record_count qp of
                     None \<Rightarrow> 1000 | Some n \<Rightarrow> if n = 0 then 1000 else n)"
  have unfold: "get_power_plants T service query_params limit st =
      map_option (\<lambda>(r, st'). (r, map_option (\<lambda>q. qp) query_params, st'))
        (pagination_loop T (build_url service_path) (to_dict qp) batch_size limit [] 0 st)"
    for T :: "'b transport" and st
    by (simp add: get_power_plants_def Some qp_def batch_size_def Let_def)
  from assms obtain plain: "pagination_loop http (build_url service_path) (to_dict qp)
        batch_size limit [] 0 s = Some (res, s')"
    and qp': "qp' = map_option (\<lambda>q. qp) query_params"
    by (auto simp: unfold)
  from pagination_loop_recorded_returns [OF plain, of "[]"] obtain tr where
    rec: "pagination_loop (recorded http) (build_url service_path) (to_dict qp)
        batch_size limit [] 0 (s, []) = Some (res, (s', tr))"
    by blast
  from pagination_loop_recorded_chain [OF rec] have "offsets_chain 0 tr"
    by auto
  with rec qp' show ?thesis
    by (simp add: unfold)
qed


lemma loop_body_paged:
  assumes "fs \<noteq> []" and "parse_features fs = Inr batch_plants"
  shows "loop_body paged_transport url params batch_size None all_plants offset (fs # rest) =
           (if int (length fs) < batch_size
            then (Break (all_plants @ batch_plants), rest)
            else (Continue (all_plants @ batch_plants) (offset + int (length fs)), rest))"
proof -
  have req: "make_request paged_transport (fs # rest) url (current_params params batch_size offset)
          = (Inr (page fs False), rest)"
    by (simp add: make_request_def paged_transport_def page_def)
  show ?thesis
    using loop_body_page [OF req from_dict_page _ assms]
    by (simp add: Let_def)
qed

lemma get_power_plants_no_limit:
  "map_of SERVICES service = Some service_path \<Longrightarrow>
   get_power_plants T service (Some qp) None st =
     map_option (\<lambda>(r, st'). (r, Some qp, st'))
       (pagination_loop T (build_url service_path) (to_dict qp)
          (case result_record_count qp of None \<Rightarrow> 1000 | Some n \<Rightarrow> if n = 0 then 1000 else n)
          None [] 0 st)"
  by (simp add: get_power_plants_def limit_set_def)

lemma three_pages_run:
  "pagination_loop paged_transport url params 2 None [] 0
     [replicate 3 (example_feature 1 ''Coal''), replicate 2 (example_feature 2 ''Wind''),
      [example_feature 3 ''Solar'']]
   = Some (Inr (replicate 3 (example_plant 1 ''Coal'') @ replicate 2 (example_plant 2 ''Wind'')
                @ [example_plant 3 ''Solar'']), [])"
proof -
  have p: "parse_features (replicate n (example_feature c src))
             = Inr (replicate n (example_plant c src))" for n c src
    by (simp add: parse_features_replicate parse_example_feature)
  have p1: "parse_features [example_feature c src] = Inr [example_plant c src]" for c src
    by (simp add: parse_example_feature)
  have b1: "loop_body paged_transport url params 2 None [] 0
     [replicate 3 (example_feature 1 ''Coal''), replicate 2 (example_feature 2 ''Wind''),
      [example_feature 3 ''Solar'']]
     = (Continue (replicate 3 (example_plant 1 ''Coal'')) 3,
        [replicate 2 (example_feature 2 ''Wind''), [example_feature 3 ''Solar'']])"
    by (subst loop_body_paged [OF _ p]) simp_all
  have b2: "loop_body paged_transport url params 2 None (replicate 3 (example_plant 1 ''Coal'')) 3
     [replicate 2 (example_feature 2 ''Wind''), [example_feature 3 ''Solar'']]
     = (Continue (replicate 3 (example_plant 1 ''Coal'') @ replicate 2 (example_plant 2 ''Wind'')) 5,
        [[example_feature 3 ''Solar'']])"
    by (subst loop_body_paged [OF _ p]) simp_all
  have b3: "loop_body paged_transport url params 2 None
     (replicate 3 (example_plant 1 ''Coal'') @ replicate 2 (example_plant 2 ''Wind'')) 5
     [[example_feature 3 ''Solar'']]
     = (Break (replicate 3 (example_plant 1 ''Coal'') @ replicate 2 (example_plant 2 ''Wind'')
                @ [example_plant 3 ''Solar'']), [])"
    by (subst loop_body_paged [OF _ p1]) simp_all
  show ?thesis
    using pagination_loop_Continue [OF b1] pagination_loop_Continue [OF b2]
      pagination_loop_Break [OF b3]
    by simp
qed

lemma three_pages_offsets:
  "map_option (\<lambda>(r, qp, s, tr). map (\<lambda>(params, answer). map_of params ''resultOffset'') tr)
     (get_power_plants (recorded paged_transport) ''all_plants''
           (Some (default_query_params\<lparr>result_record_count := Some 2\<rparr>)) None
           ([replicate 3 (example_feature 1 ''Coal''), replicate 2 (example_feature 2 ''Wind''),
             [example_feature 3 ''Solar'']], []))
   = Some [Some (PInt 0), Some (PInt 3), Some (PInt 5)]"
proof -
  let ?pages = "[replicate 3 (example_feature 1 ''Coal''), replicate 2 (example_feature 2 ''Wind''),
             [example_feature 3 ''Solar'']]"
  let ?T = "recorded paged_transport"
  have p: "parse_features (replicate n (example_feature c src))
             = Inr (replicate n (example_plant c src))" for n c src
    by (simp add: parse_features_replicate parse_example_feature)
  have p1: "parse_features [example_feature c src] = Inr [example_plant c src]" for c src
    by (simp add: parse_example_feature)
  have body: "loop_body ?T url params 2 None all_plants offset (fs # rest, tr) =
        (if int (length fs) < 2
         then (Break (all_plants @ batch_plants),
               (rest, tr @ [(current_params params 2 offset, Inr (page fs False))]))
         else (Continue (all_plants @ batch_plants) (offset + int (length fs)),
               (rest, tr @ [(current_params params 2 offset, Inr (page fs False))])))"
    if "fs \<noteq> []" "parse_features fs = Inr batch_plants"
    for url params all_plants offset fs rest tr batch_plants
    by (simp add: loop_body_recorded loop_body_paged [OF that] paged_transport_def)
  have b1: "loop_body ?T url params 2 None [] 0 (?pages, [])
     = (Continue (replicate 3 (example_plant 1 ''Coal'')) 3,
        ([replicate 2 (example_feature 2 ''Wind''), [example_feature 3 ''Solar'']],
         [(current_params params 2 0, Inr (page (replicate 3 (example_feature 1 ''Coal'')) False))]))"
    for url params
    by (subst body [OF _ p]) simp_all
  have b2: "loop_body ?T url params 2 None (replicate 3 (example_plant 1 ''Coal'')) 3
        ([replicate 2 (example_feature 2 ''Wind''), [example_feature 3 ''Solar'']], tr)
     = (Continue (replicate 3 (example_plant 1 ''Coal'') @ replicate 2 (example_plant 2 ''Wind'')) 5,
        ([[example_feature 3 ''Solar'']],
         tr @ [(current_params params 2 3, Inr (page (replicate 2 (example_feature 2 ''Wind'')) False))]))"
    for url params tr
    by (subst body [OF _ p]) simp_all
  have b3: "loop_body ?T url params 2 None
        (replicate 3 (example_plant 1 ''Coal'') @ replicate 2 (example_plant 2 ''Wind'')) 5
        ([[example_feature 3 ''Solar'']], tr)
     = (Break (replicate 3 (example_plant 1 ''Coal'') @ replicate 2 (example_plant 2 ''Wind'')
                @ [example_plant 3 ''Solar'']),
        ([], tr @ [(current_params params 2 5, Inr (page ([example_feature 3 ''Solar'']) False))]))"
    for url params tr
    by (subst body [OF _ p1]) simp_all
  have run: "pagination_loop ?T url params 2 None [] 0 (?pages, [])
     = Some (Inr (replicate 3 (example_plant 1 ''Coal'') @ replicate 2 (example_plant 2 ''Wind'')
                @ [example_plant 3 ''Solar'']),
             ([], [(current_params params 2 0, Inr (page (replicate 3 (example_feature 1 ''Coal'')) False)),
                   (current_params params 2 3, Inr (page (replicate 2 (example_feature 2 ''Wind'')) False)),
                   (current_params params 2 5, Inr (page ([example_feature 3 ''Solar'']) False))]))"
    for url params
    using pagination_loop_Continue [OF b1] pagination_loop_Continue [OF b2]
      pagination_loop_Break [OF b3]
    by simp
  show ?thesis
    by (simp add: get_power_plants_no_limit [OF all_plants_service] run current_params_offset)
qed

theorem C2_offsets_advance_by_received_witness:
  "(\<exists>tr. get_power_plants (recorded paged_transport) ''all_plants''
           (Some (default_query_params\<lparr>result_record_count := Some 2\<rparr>)) None
           ([replicate 3 (example_feature 1 ''Coal''), replicate 2 (example_feature 2 ''Wind''),
             [example_feature 3 ''Solar'']], [])
         = Some (Inr (replicate 3 (example_plant 1 ''Coal'') @ replicate 2 (example_plant 2 ''Wind'')
                      @ [example_plant 3 ''Solar'']),
                 Some (default_query_params\<lparr>result_record_count := Some 2\<rparr>), ([], tr))
       \<and> offsets_chain 0 tr)
   \<and> map_option (\<lambda>(r, qp, s, tr). map (\<lambda>(params, answer). map_of params ''resultOffset'') tr)
       (get_power_plants (recorded paged_transport) ''all_plants''
             (Some (default_query_params\<lparr>result_record_count := Some 2\<rparr>)) None
             ([replicate 3 (example_feature 1 ''Coal''), replicate 2 (example_feature 2 ''Wind''),
               [example_feature 3 ''Solar'']], []))
     = Some [Some (PInt 0), Some (PInt 3), Some (PInt 5)]"
proof -
  have "get_power_plants paged_transport ''all_plants''
           (Some (default_query_params\<lparr>result_record_count := Some 2\<rparr>)) None
           [replicate 3 (example_feature 1 ''Coal''), replicate 2 (example_feature 2 ''Wind''),
            [example_feature 3 ''Solar'']]
         = Some (Inr (replicate 3 (example_plant 1 ''Coal'') @ replicate 2 (example_plant 2 ''Wind'')
                      @ [example_plant 3 ''Solar'']),
                 Some (default_query_params\<lparr>result_record_count := Some 2\<rparr>), [])"
    by (simp add: get_power_plants_no_limit [OF all_plants_service] three_pages_run)
  from C2_offsets_advance_by_received [OF this] three_pages_offsets show ?thesis
    by blast
qed

section \<open>Properties of the routing\<close>

lemma service_mapping_None:
  "(map_of service_mapping t = None) = (t = HYDRO_PUMPED \<or> t = BIOMASS)"
  by (cases t) (simp_all add: service_mapping_def)

lemma filter_by_energy_type_filter:
  "filter_by_energy_type t plants = Inr result
   \<Longrightarrow> result = filter (\<lambda>p. primary_energy_type p = Inr t) plants"
proof (induction plants arbitrary: result)
  case Nil
  then show ?case by simp
next
  case (Cons p ps)
  from Cons.prems obtain t' rest where
    p: "primary_energy_type p = Inr t'" and
    rest: "filter_by_energy_type t ps = Inr rest" and
    res: "result = (if t' = t then p # rest else rest)"
    by (auto split: sum.splits)
  from Cons.IH [OF rest] p res show ?case by simp
qed

lemma get_power_plants_no_params:
  "get_power_plants http service None limit s = Some (r, qp, s') \<Longrightarrow> qp = None"
  by (auto simp: get_power_plants_def Let_def split: option.splits)

lemma get_plants_fallback:
  assumes none: "map_of service_mapping t = None"
      and res: "get_plants_by_energy_type http t limit s = Some (Inr plants, s')"
  shows "\<exists>all_plants qp.
           get_power_plants http ''all_plants'' None limit s = Some (Inr all_plants, qp, s')
           \<and> filter_by_energy_type t all_plants = Inr plants"
proof (cases "get_power_plants http ''all_plants'' None limit s")
  case None
  with none res show ?thesis
    by (simp add: get_plants_by_energy_type_def)
next
  case (Some x)
  obtain r qp s'' where x: "x = (r, qp, s'')" by (cases x)
  show ?thesis
  proof (cases r)
    case (Inl e)
    with none res Some x show ?thesis
      by (simp add: get_plants_by_energy_type_def)
  next
    case (Inr all_plants)
    with none res Some x show ?thesis
      by (simp add: get_plants_by_energy_type_def)
  qed
qed

text \<open>
  C4, as amended: \<^verbatim>\<open>service_mapping\<close> gives a service to exactly ten energy types,
  the nine of the claim and \<open>OTHER\<close>, and a type with a service is fetched from it
  without a filter. For the two types left, \<open>HYDRO_PUMPED\<close> and \<open>BIOMASS\<close>, the
  plants are fetched from \<^verbatim>\<open>all_plants\<close> with the same limit and filtered by the
  classifier: the plants returned are those of the fetched list whose primary energy
  type is the requested one.
\<close>

theorem C4_routing_and_fallback:
  "(map_of service_mapping t \<noteq> None)
     = (t \<in> {COAL, NATURAL_GAS, NUCLEAR, HYDRO, SOLAR, WIND, GEOTHERMAL, BATTERY,
              CRUDE_OIL, OTHER})
   \<and> (map_of service_mapping t = Some service \<longrightarrow>
        get_plants_by_energy_type http t limit s
          = map_option (\<lambda>(r, qp, s'). (r, s')) (get_power_plants http service None limit s))
   \<and> ((t = HYDRO_PUMPED \<or> t = BIOMASS)
        \<and> get_plants_by_energy_type http t limit s = Some (Inr plants, s') \<longrightarrow>
        (\<exists>all_plants.
           get_power_plants http ''all_plants'' None limit s = Some (Inr all_plants, None, s')
           \<and> plants = filter (\<lambda>p. primary_energy_type p = Inr t) all_plants
           \<and> (\<forall>p\<in>set plants. primary_energy_type p = Inr t)))"
proof (intro conjI impI)
  show "(map_of service_mapping t \<noteq> None)
     = (t \<in> {COAL, NATURAL_GAS, NUCLEAR, HYDRO, SOLAR, WIND, GEOTHERMAL, BATTERY,
              CRUDE_OIL, OTHER})"
    by (cases t) (simp_all add: service_mapping_def)
next
  assume "map_of service_mapping t = Some service"
  then show "get_plants_by_energy_type http t limit s
          = map_option (\<lambda>(r, qp, s'). (r, s')) (get_power_plants http service None limit s)"
    by (simp add: get_plants_by_energy_type_def)
next
  assume a: "(t = HYDRO_PUMPED \<or> t = BIOMASS)
        \<and> get_plants_by_energy_type http t limit s = Some (Inr plants, s')"
  then have none: "map_of service_mapping t = None"
    by (simp add: service_mapping_None)
  from a have res: "get_plants_by_energy_type http t limit s = Some (Inr plants, s')"
    by simp
  from get_plants_fallback [OF none res] obtain all_plants qp where
    run: "get_power_plants http ''all_plants'' None limit s = Some (Inr all_plants, qp, s')" and
    flt: "filter_by_energy_type t all_plants = Inr plants"
    by blast
  have qp: "qp = None" using run by (rule get_power_plants_no_params)
  have eq: "plants = filter (\<lambda>p. primary_energy_type p = Inr t) all_plants"
    using flt by (rule filter_by_energy_type_filter)
  then have "\<forall>p\<in>set plants. primary_energy_type p = Inr t" by simp
  with run qp eq
  show "\<exists>all_plants.
           get_power_plants http ''all_plants'' None limit s = Some (Inr all_plants, None, s')
           \<and> plants = filter (\<lambda>p. primary_energy_type p = Inr t) all_plants
           \<and> (\<forall>p\<in>set plants. primary_energy_type p = Inr t)"
    by blast
qed

lemma example_plant_type:
  "primary_energy_type (example_plant c src) = Inr (classify src)"
  by (simp add: primary_energy_type_def example_plant_def)

lemma classify_coal_biomass:
  "classify ''Coal'' = COAL" "classify ''Biomass'' = BIOMASS"
  by code_simp+

lemma get_power_plants_default:
  "map_of SERVICES service = Some service_path \<Longrightarrow>
   get_power_plants http service None None s =
     map_option (\<lambda>(r, s'). (r, None, s'))
       (pagination_loop http (build_url service_path) (to_dict default_query_params)
          1000 None [] 0 s)"
  by (simp add: get_power_plants_def limit_set_def default_no_record_count)

lemma other_plants_service:
  "map_of SERVICES ''other_plants'' = Some ''Other_Power_Plants/FeatureServer/0''"
  by (simp add: SERVICES_def)

text \<open>
  C4 as stated fails for \<open>OTHER\<close>: it has a service, \<^verbatim>\<open>other_plants\<close>, the call
  fetches from it without a filter, and a plant that service returns with the primary
  source Coal is returned although its primary energy type is \<open>COAL\<close>.
\<close>

theorem C4_other_has_service_counterexample:
  "map_of service_mapping OTHER = Some ''other_plants''
   \<and> map_option fst
       (get_plants_by_energy_type
          (recording_transport (constant_server [example_feature 1 ''Coal''] False))
          OTHER None [])
     = Some (Inr [example_plant 1 ''Coal''])
   \<and> primary_energy_type (example_plant 1 ''Coal'') = Inr COAL"
proof -
  have m: "map_of service_mapping OTHER = Some ''other_plants''"
    by (simp add: service_mapping_def)
  have run: "pagination_loop
          (recording_transport (constant_server [example_feature 1 ''Coal''] False))
          url params 1000 None [] 0 []
        = Some (Inr [example_plant 1 ''Coal''], [current_params params 1000 0])"
    for url params
    by (rule run_constant_short_page) (simp_all add: parse_example_feature)
  show ?thesis
    by (simp add: m get_plants_by_energy_type_def get_power_plants_default [OF other_plants_service]
        run example_plant_type classify_coal_biomass)
qed

theorem C4_routing_and_fallback_witness:
  "map_of service_mapping BIOMASS = None
   \<and> get_plants_by_energy_type
        (recording_transport
           (constant_server [example_feature 1 ''Coal'', example_feature 2 ''Biomass''] False))
        BIOMASS None []
      = Some (Inr [example_plant 2 ''Biomass''],
              [current_params (to_dict default_query_params) 1000 0])
   \<and> (\<exists>all_plants.
         get_power_plants
           (recording_transport
              (constant_server [example_feature 1 ''Coal'', example_feature 2 ''Biomass''] False))
           ''all_plants'' None None []
           = Some (Inr all_plants, None, [current_params (to_dict default_query_params) 1000 0])
         \<and> [example_plant 2 ''Biomass'']
             = filter (\<lambda>p. primary_energy_type p = Inr BIOMASS) all_plants
         \<and> (\<forall>p\<in>set [example_plant 2 ''Biomass'']. primary_energy_type p = Inr BIOMASS))"
proof -
  let ?T = "recording_transport
              (constant_server [example_feature 1 ''Coal'', example_feature 2 ''Biomass''] False)"
  have m: "map_of service_mapping BIOMASS = None"
    by (simp add: service_mapping_def)
  have run: "pagination_loop ?T url params 1000 None [] 0 []
        = Some (Inr [example_plant 1 ''Coal'', example_plant 2 ''Biomass''],
                [current_params params 1000 0])"
    for url params
    by (rule run_constant_short_page) (simp_all add: parse_example_feature)
  have res: "get_plants_by_energy_type ?T BIOMASS None []
      = Some (Inr [example_plant 2 ''Biomass''],
              [current_params (to_dict default_query_params) 1000 0])"
    by (simp add: m get_plants_by_energy_type_def get_power_plants_default [OF all_plants_service]
        run example_plant_type classify_coal_biomass)
  from C4_routing_and_fallback [of BIOMASS "''none''" ?T None "[]" "[example_plant 2 ''Biomass'']"
         "[current_params (to_dict default_query_params) 1000 0]"] res m
  show ?thesis by simp
qed

text \<open>
  No primary source classifies as \<open>HYDRO_PUMPED\<close>, since no keyword of the table
  maps to it: the fallback for that type returns no plant.
\<close>

lemma classify_loop_range: "classify_loop tbl s \<in> insert OTHER (snd ` set tbl)"
  by (induction tbl s rule: classify_loop.induct) auto

lemma classify_not_hydro_pumped: "classify s \<noteq> HYDRO_PUMPED"
proof -
  have "classify s \<in> insert OTHER (snd ` set source_mapping)"
    unfolding classify_def by (rule classify_loop_range)
  then show ?thesis
    by (auto simp: source_mapping_def)
qed

section \<open>Properties of the renewable percentage\<close>

lemma set_map_filter_Some:
  "set (List.map_filter f xs) = {y. Some y \<in> f ` set xs}"
proof (induction xs)
  case Nil
  show ?case by (simp add: map_filter_simps)
next
  case (Cons x xs)
  show ?case
  proof (cases "f x")
    case None
    then show ?thesis
      using Cons.IH by (auto simp: map_filter_simps)
  next
    case (Some y)
    then show ?thesis
      using Cons.IH by (auto simp: map_filter_simps)
  qed
qed

lemma calculate_rows:
  "row \<in> calculate_renewable_percentage df \<longleftrightarrow>
     (\<exists>st. Some st \<in> row_state ` set df
        \<and> row = (let group = filter (\<lambda>r. row_state r = Some st) df;
                     total = group_sum (map row_total_mw group);
                     renewable = group_sum (map row_renewable_capacity_mw group)
                 in \<lparr>summary_state = st,
                     summary_total_mw = total,
                     summary_renewable_capacity_mw = renewable,
                     renewable_percentage = round_2 (times_100 (float_div renewable total))\<rparr>))"
proof -
  have keys: "set (sort (remdups (List.map_filter row_state df))) = {st. Some st \<in> row_state ` set df}"
    by (simp add: set_map_filter_Some)
  show ?thesis
    unfolding calculate_renewable_percentage_def state_summary_def set_map keys
    by (auto simp: Let_def)
qed



lemma every_state_has_row:
  assumes "Some st \<in> row_state ` set df"
  shows "\<exists>row. row \<in> calculate_renewable_percentage df \<and> summary_state row = st"
proof -
  let ?row = "(let group = filter (\<lambda>r. row_state r = Some st) df;
                     total = group_sum (map row_total_mw group);
                     renewable = group_sum (map row_renewable_capacity_mw group)
                 in \<lparr>summary_state = st,
                     summary_total_mw = total,
                     summary_renewable_capacity_mw = renewable,
                     renewable_percentage = round_2 (times_100 (float_div renewable total))\<rparr>)"
  have "?row \<in> calculate_renewable_percentage df"
    unfolding calculate_rows using assms by blast
  moreover have "summary_state ?row = st"
    by (simp add: Let_def)
  ultimately show ?thesis by blast
qed




end
